theory Spec2Isabelle
  imports Complex_Main "HOL-Library.AList"
begin

section \<open>JavaScript values used by the engine\<close>

text \<open>
  A JavaScript \<open>number\<close> is either the not-a-number sentinel or a finite value. Finite
  values are kept exact (rationals): the rounding of IEEE doubles and the two infinities
  are outside this model. Every division the modelled code performs has a divisor that
  the code itself has guarded to be non-zero, so no infinity is produced by it.
\<close>

datatype jsnum = NaN | Fin rat

fun num_add :: "jsnum \<Rightarrow> jsnum \<Rightarrow> jsnum" where
  "num_add (Fin a) (Fin b) = Fin (a + b)"
| "num_add _ _ = NaN"

fun num_sub :: "jsnum \<Rightarrow> jsnum \<Rightarrow> jsnum" where
  "num_sub (Fin a) (Fin b) = Fin (a - b)"
| "num_sub _ _ = NaN"

fun num_mul :: "jsnum \<Rightarrow> jsnum \<Rightarrow> jsnum" where
  "num_mul (Fin a) (Fin b) = Fin (a * b)"
| "num_mul _ _ = NaN"

text \<open>\<open>a / b\<close>. With \<open>b = 0\<close> JavaScript gives an infinity or NaN; the model has no
  infinity and answers NaN there. No call below reaches that case.\<close>

fun num_div :: "jsnum \<Rightarrow> jsnum \<Rightarrow> jsnum" where
  "num_div (Fin a) (Fin b) = (if b = 0 then NaN else Fin (a / b))"
| "num_div _ _ = NaN"

text \<open>\<open>a > b\<close>: false as soon as one side is NaN.\<close>

fun num_gt :: "jsnum \<Rightarrow> jsnum \<Rightarrow> bool" where
  "num_gt (Fin a) (Fin b) = (b < a)"
| "num_gt _ _ = False"

datatype js_error = SyntaxError | RangeError | TypeError | ListenerError

text \<open>\<open>BigInt(Math.floor(x))\<close>: a RangeError for NaN, the integer otherwise.\<close>

fun BigInt_floor :: "jsnum \<Rightarrow> js_error + int" where
  "BigInt_floor NaN = Inl RangeError"
| "BigInt_floor (Fin q) = Inr \<lfloor>q\<rfloor>"

subsection \<open>Strings and \<open>BigInt(string)\<close>\<close>

text \<open>
  A JavaScript string is a sequence of UTF-16 code units. The strings that the code only
  compares or hands on (hashes, names, message types) are Isabelle strings here. The
  reward, whose characters \<open>BigInt\<close> reads, is the list of its code units, each a number
  below 65536; \<open>units\<close> gives the code units of a text of ASCII characters.
\<close>

type_synonym code_units = "nat list"

definition units :: "string \<Rightarrow> code_units" where
  "units s = map of_char s"

text \<open>
  The conversion of the language standard (StringToBigInt): white space is trimmed on both
  sides; the empty rest is \<open>0\<close>; otherwise the rest is a decimal literal with an optional
  sign, or an unsigned literal with prefix \<open>0x\<close>, \<open>0o\<close> or \<open>0b\<close>; anything else is a
  SyntaxError. White space is every StrWhiteSpaceChar of the standard: TAB, LF, VT, FF,
  CR, the space, U+00A0, U+1680, U+2000 to U+200A, U+2028, U+2029, U+202F, U+205F,
  U+3000 and U+FEFF.
\<close>

definition is_space :: "nat \<Rightarrow> bool" where
  "is_space c =
     (c \<in> {9, 10, 11, 12, 13, 32, 160, 5760, 8232, 8233, 8239, 8287, 12288, 65279}
      \<or> (8192 \<le> c \<and> c \<le> 8202))"

definition trim :: "code_units \<Rightarrow> code_units" where
  "trim s = rev (dropWhile is_space (rev (dropWhile is_space s)))"

text \<open>The value of a code unit as a digit of the base: \<open>0\<close> to \<open>9\<close>, then the letters
  in either case.\<close>

definition digit_of :: "nat \<Rightarrow> nat \<Rightarrow> nat option" where
  "digit_of base n =
     (let d = (if 48 \<le> n \<and> n \<le> 57 then Some (n - 48)
               else if 97 \<le> n \<and> n \<le> 122 then Some (n - 87)
               else if 65 \<le> n \<and> n \<le> 90 then Some (n - 55)
               else None)
      in case d of None \<Rightarrow> None | Some v \<Rightarrow> if v < base then Some v else None)"

text \<open>Left-to-right accumulation of the digits of a literal; \<open>None\<close> at the first
  code unit that is not a digit of the base.\<close>

fun digits_acc :: "nat \<Rightarrow> nat \<Rightarrow> code_units \<Rightarrow> nat option" where
  "digits_acc base acc [] = Some acc"
| "digits_acc base acc (c # cs) =
     (case digit_of base c of
        None \<Rightarrow> None
      | Some d \<Rightarrow> digits_acc base (acc * base + d) cs)"

definition digits :: "nat \<Rightarrow> code_units \<Rightarrow> nat option" where
  "digits base s = (if s = [] then None else digits_acc base 0 s)"

definition unsigned_literal :: "nat \<Rightarrow> code_units \<Rightarrow> js_error + int" where
  "unsigned_literal base s =
     (case digits base s of None \<Rightarrow> Inl SyntaxError | Some n \<Rightarrow> Inr (int n))"

definition BigInt_string :: "code_units \<Rightarrow> js_error + int" where
  "BigInt_string s =
     (let t = trim s in
      if t = [] then Inr 0
      else if take 2 t \<in> {units ''0x'', units ''0X''} then unsigned_literal 16 (drop 2 t)
      else if take 2 t \<in> {units ''0o'', units ''0O''} then unsigned_literal 8 (drop 2 t)
      else if take 2 t \<in> {units ''0b'', units ''0B''} then unsigned_literal 2 (drop 2 t)
      else if [hd t] = units ''+'' then unsigned_literal 10 (tl t)
      else if [hd t] = units ''-'' then
        (case unsigned_literal 10 (tl t) of Inl e \<Rightarrow> Inl e | Inr n \<Rightarrow> Inr (- n))
      else unsigned_literal 10 t)"

section \<open>Data model\<close>

text \<open>The wire records of \<open>CKBChainVizService.ts\<close> (interfaces \<open>Block\<close>,
  \<open>Transaction\<close>, \<open>EnhancedTransaction\<close>). Field names that several interfaces share
  carry a prefix.\<close>

record block =
  blockNumber :: string
  blockHash :: string
  block_timestamp :: string
  miner :: string
  reward :: code_units
  transactionCount :: jsnum
  proposalsCount :: "jsnum option"
  unclesCount :: "jsnum option"
  block_transactions :: "string list"

record tx_context =
  ctx_blockNumber :: "string option"
  ctx_blockHash :: "string option"
  txIndexInBlock :: "jsnum option"

record transaction =
  txHash :: string
  tx_timestamp :: string
  tx_context :: "tx_context option"

datatype tx_status = PENDING | PROPOSED | CONFIRMED | REJECTED

record enhanced_transaction = transaction +
  status :: tx_status

text \<open>The derived records of the manager (\<open>ProcessedBlockData\<close>,
  \<open>ProcessedTransactionData\<close>, the \<open>metrics\<close> object). A \<open>Date\<close> is kept as its time
  value in milliseconds, NaN for an invalid date.\<close>

record processed_block =
  pb_hash :: string
  pb_number :: jsnum
  pb_timestamp :: jsnum
  pb_transactionCount :: jsnum
  pb_totalValue :: int
  pb_size :: jsnum
  pb_miner :: string
  pb_difficulty :: jsnum

record processed_transaction =
  ptx_hash :: string
  ptx_status :: tx_status
  ptx_value :: int
  ptx_fee :: int
  ptx_inputCount :: jsnum
  ptx_outputCount :: jsnum
  ptx_size :: jsnum
  ptx_timestamp :: "jsnum option"

record metrics =
  averageBlockTime :: jsnum
  transactionThroughput :: jsnum
  networkHashRate :: int
  pendingTxCount :: nat
  confirmationTime :: jsnum

text \<open>The two built-ins whose result depends on the host or on double rounding are
  parameters: \<open>parseInt(s)\<close>, and \<open>new Date(s).getTime()\<close>.\<close>

record js_env =
  parseInt :: "string \<Rightarrow> jsnum"
  dateTime :: "string \<Rightarrow> jsnum"

text \<open>The state of a \<open>ChainDataManager\<close>. A JavaScript \<open>Map\<close> keeps its keys in
  insertion order, and \<open>set\<close> on a present key replaces the value in place: an association
  list with \<^const>\<open>AList.update\<close>, \<^const>\<open>AList.delete\<close> and \<^const>\<open>map_of\<close>.\<close>

record manager =
  blocks :: "(string \<times> processed_block) list"
  transactions :: "(string \<times> processed_transaction) list"
  blockTimestamps :: "jsnum list"
  transactionCounts :: "jsnum list"

definition initial :: manager where
  "initial = \<lparr>blocks = [], transactions = [], blockTimestamps = [], transactionCounts = []\<rparr>"

text \<open>What a handler does besides changing the manager: the events it publishes on the
  bus and its console lines (the message text only). The subscribers of the published
  events belong to other components (the scene, whose handlers catch their own
  exceptions) and are not modelled: publishing is an effect that returns.\<close>

datatype bus_value =
    ProcessedBlock processed_block
  | ProcessedTransaction processed_transaction
  | Metrics metrics
  | Hash string

datatype level = Log | Warn | Error

datatype effect = Emit string bus_value | Console level string

text \<open>The result of running a handler: the state it leaves, its effects in order, and
  the exception that leaves it, if any.\<close>

type_synonym outcome = "manager \<times> effect list \<times> js_error option"

section \<open>ChainDataManager\<close>

definition processBlock :: "js_env \<Rightarrow> block \<Rightarrow> js_error + processed_block" where
  "processBlock env b =
     (case BigInt_string (if reward b = [] then units ''0'' else reward b) of
        Inl e \<Rightarrow> Inl e
      | Inr v \<Rightarrow> Inr \<lparr>pb_hash = blockHash b,
                     pb_number = parseInt env (blockNumber b),
                     pb_timestamp = dateTime env (block_timestamp b),
                     pb_transactionCount = transactionCount b,
                     pb_totalValue = v,
                     pb_size = Fin 0,
                     pb_miner = miner b,
                     pb_difficulty = Fin 0\<rparr>)"

definition processTransaction :: "js_env \<Rightarrow> enhanced_transaction \<Rightarrow> processed_transaction" where
  "processTransaction env t =
     \<lparr>ptx_hash = txHash t,
      ptx_status = status t,
      ptx_value = 0,
      ptx_fee = 0,
      ptx_inputCount = Fin 0,
      ptx_outputCount = Fin 0,
      ptx_size = Fin 0,
      ptx_timestamp = Some (dateTime env (tx_timestamp t))\<rparr>"

text \<open>\<open>xs.slice(-n)\<close>: the last \<open>n\<close> elements, all of them when there are fewer.\<close>

definition slice_last :: "nat \<Rightarrow> 'a list \<Rightarrow> 'a list" where
  "slice_last n xs = drop (length xs - n) xs"

text \<open>\<open>xs.reduce((sum, x) => sum + x, 0)\<close>.\<close>

definition reduce_sum :: "jsnum list \<Rightarrow> jsnum" where
  "reduce_sum xs = foldl (\<lambda>sum x. num_add sum x) (Fin 0) xs"

definition calculateAverageBlockTime :: "manager \<Rightarrow> jsnum" where
  "calculateAverageBlockTime m =
     (let ts = blockTimestamps m in
      if length ts < 2 then Fin 0
      else
        let intervals = map (\<lambda>i. num_sub (ts ! i) (ts ! (i - 1))) [1..<length ts]
        in num_div (num_div (reduce_sum intervals) (Fin (of_nat (length intervals))))
                   (Fin 1000))"

definition calculateTransactionThroughput :: "manager \<Rightarrow> jsnum" where
  "calculateTransactionThroughput m =
     (if length (transactionCounts m) = 0 then Fin 0
      else
        let recentCounts = slice_last 10 (transactionCounts m);
            totalTx = reduce_sum recentCounts;
            avgBlockTime = calculateAverageBlockTime m
        in if num_gt avgBlockTime (Fin 0)
           then num_div totalTx (num_mul (Fin (of_nat (length recentCounts))) avgBlockTime)
           else Fin 0)"

definition estimateHashRate :: "manager \<Rightarrow> js_error + int" where
  "estimateHashRate m =
     (if length (blocks m) = 0 then Inr 0
      else
        let recentBlocks = slice_last 10 (map snd (blocks m));
            avgDifficulty =
              num_div (foldl (\<lambda>sum b. num_add sum (pb_difficulty b)) (Fin 0) recentBlocks)
                      (Fin (of_nat (length recentBlocks)));
            avgBlockTime = calculateAverageBlockTime m
        in if num_gt avgBlockTime (Fin 0)
           then BigInt_floor (num_div avgDifficulty avgBlockTime)
           else Inr 0)"

definition calculateAverageConfirmationTime :: "manager \<Rightarrow> jsnum" where
  "calculateAverageConfirmationTime m = num_mul (calculateAverageBlockTime m) (Fin 6)"

definition getMetrics :: "manager \<Rightarrow> js_error + metrics" where
  "getMetrics m =
     (let avgBlockTime = calculateAverageBlockTime m;
          txThroughput = calculateTransactionThroughput m;
          pendingCount = length (filter (\<lambda>tx. ptx_status tx = PENDING) (map snd (transactions m)))
      in case estimateHashRate m of
           Inl e \<Rightarrow> Inl e
         | Inr hashRate \<Rightarrow>
             Inr \<lparr>averageBlockTime = avgBlockTime,
                  transactionThroughput = txThroughput,
                  networkHashRate = hashRate,
                  pendingTxCount = pendingCount,
                  confirmationTime = calculateAverageConfirmationTime m\<rparr>)"

definition getBlockByHash :: "manager \<Rightarrow> string \<Rightarrow> processed_block option" where
  "getBlockByHash m h = map_of (blocks m) h"

definition getTransactionByHash :: "manager \<Rightarrow> string \<Rightarrow> processed_transaction option" where
  "getTransactionByHash m h = map_of (transactions m) h"

text \<open>\<open>xs.push(x); if (xs.length > 100) xs.shift()\<close>.\<close>

definition push_window :: "jsnum list \<Rightarrow> jsnum \<Rightarrow> jsnum list" where
  "push_window xs x = (let ys = xs @ [x] in if length ys > 100 then tl ys else ys)"

text \<open>
  The handlers take the payload as the bus delivers it: an object of the interface, or
  \<open>null\<close> or \<open>undefined\<close>, written \<open>None\<close>. Reading a property of \<open>None\<close> raises a
  TypeError. In \<open>handleNewBlock\<close> and \<open>handleTransactionUpdate\<close> this happens in the first
  statement of the \<open>try\<close> and once more in the \<open>catch\<close>, whose first \<open>console.error\<close> reads
  the hash of the payload among its arguments.
\<close>

text \<open>The body of the \<open>try\<close> of \<open>handleNewBlock\<close>, statement by statement; an exception
  ends it with the state reached so far.\<close>

definition handleNewBlock_try :: "js_env \<Rightarrow> manager \<Rightarrow> block option \<Rightarrow> outcome" where
  "handleNewBlock_try env m blk =
     (case blk of
        None \<Rightarrow> (m, [], Some TypeError)
      | Some b \<Rightarrow>
         (case processBlock env b of
            Inl e \<Rightarrow> (m, [Console Log ''Processing new block:''], Some e)
          | Inr processedBlock \<Rightarrow>
              let m1 = m\<lparr>blocks := AList.update (blockHash b) processedBlock (blocks m)\<rparr>;
                  m2 = m1\<lparr>blockTimestamps :=
                            push_window (blockTimestamps m1) (pb_timestamp processedBlock)\<rparr>;
                  m3 = m2\<lparr>transactionCounts :=
                            push_window (transactionCounts m2)
                              (pb_transactionCount processedBlock)\<rparr>
              in (case getMetrics m3 of
                   Inl e \<Rightarrow>
                     (m3, [Console Log ''Processing new block:'',
                           Emit ''processed-block-data'' (ProcessedBlock processedBlock)],
                      Some e)
                 | Inr ms \<Rightarrow>
                     (m3, [Console Log ''Processing new block:'',
                           Emit ''processed-block-data'' (ProcessedBlock processedBlock),
                           Emit ''chain-metrics-updated'' (Metrics ms),
                           Console Log ''Successfully processed block:''], None))))"

definition handleNewBlock :: "js_env \<Rightarrow> manager \<Rightarrow> block option \<Rightarrow> outcome" where
  "handleNewBlock env m blk =
     (case handleNewBlock_try env m blk of
        (m', fx, None) \<Rightarrow> (m', fx, None)
      | (m', fx, Some e) \<Rightarrow>
          (case blk of
             None \<Rightarrow> (m', fx, Some TypeError)
           | Some b \<Rightarrow>
               (m', fx @ [Console Error ''Error processing block:'',
                          Console Error ''Block data:''], None)))"

definition handleTransactionUpdate_try ::
  "js_env \<Rightarrow> manager \<Rightarrow> enhanced_transaction option \<Rightarrow> outcome" where
  "handleTransactionUpdate_try env m tx =
     (case tx of
        None \<Rightarrow> (m, [], Some TypeError)
      | Some t \<Rightarrow>
          let processedTx = processTransaction env t;
              m1 = m\<lparr>transactions := AList.update (txHash t) processedTx (transactions m)\<rparr>
          in (m1, [Emit ''processed-transaction-data'' (ProcessedTransaction processedTx)],
              None))"

definition handleTransactionUpdate ::
  "js_env \<Rightarrow> manager \<Rightarrow> enhanced_transaction option \<Rightarrow> outcome" where
  "handleTransactionUpdate env m tx =
     (case handleTransactionUpdate_try env m tx of
        (m', fx, None) \<Rightarrow> (m', fx, None)
      | (m', fx, Some e) \<Rightarrow>
          (case tx of
             None \<Rightarrow> (m', fx, Some TypeError)
           | Some t \<Rightarrow>
               (m', fx @ [Console Error ''Error processing transaction:'',
                          Console Error ''Transaction data:''], None)))"

definition handleTransactionRejected :: "manager \<Rightarrow> enhanced_transaction option \<Rightarrow> outcome" where
  "handleTransactionRejected m tx =
     (case tx of
        None \<Rightarrow> (m, [], Some TypeError)
      | Some t \<Rightarrow>
          (m\<lparr>transactions := AList.delete (txHash t) (transactions m)\<rparr>,
           [Emit ''transaction-removed'' (Hash (txHash t))], None))"

section \<open>The event bus\<close>

text \<open>
  \<open>EventBus\<close> is an instance of the event emitter of the Phaser library. Its documented
  behaviour: \<open>on(event, fn)\<close> appends \<open>fn\<close> to the listeners of \<open>event\<close>;
  \<open>off(event, fn)\<close> drops those listeners of \<open>event\<close> whose function is \<open>fn\<close> itself
  (compared by identity) and never raises, whether or not one is found; \<open>emit\<close> calls the
  listeners of the event in the order of their registration, and an exception of a listener
  leaves \<open>emit\<close> at once.

  The manager registers \<open>this.method.bind(this)\<close>. Every evaluation of \<open>bind\<close> makes a new
  function object, so a bound function is the method it calls together with an identity
  that no earlier function object has; the world keeps the next unused identity.
\<close>

datatype method_ref = HandleNewBlock | HandleTransactionUpdate | HandleTransactionRejected

record bound_fn =
  fn_id :: nat
  fn_method :: method_ref

type_synonym emitter = "(string \<times> bound_fn) list"

definition on :: "string \<Rightarrow> bound_fn \<Rightarrow> emitter \<Rightarrow> emitter" where
  "on ev f E = E @ [(ev, f)]"

definition off :: "string \<Rightarrow> bound_fn \<Rightarrow> emitter \<Rightarrow> emitter" where
  "off ev f E = filter (\<lambda>(e, g). \<not> (e = ev \<and> g = f)) E"

definition listeners :: "string \<Rightarrow> emitter \<Rightarrow> bound_fn list" where
  "listeners ev E = map snd (filter (\<lambda>(e, g). e = ev) E)"

record world =
  bus :: emitter
  mgr :: manager
  next_fn :: nat
  trace :: "effect list"

definition bind_method :: "method_ref \<Rightarrow> world \<Rightarrow> bound_fn \<times> world" where
  "bind_method f w = (\<lparr>fn_id = next_fn w, fn_method = f\<rparr>, w\<lparr>next_fn := Suc (next_fn w)\<rparr>)"

text \<open>\<open>EventBus.on(ev, this.f.bind(this))\<close> and \<open>EventBus.off(ev, this.f.bind(this))\<close>.\<close>

definition on_bound :: "string \<Rightarrow> method_ref \<Rightarrow> world \<Rightarrow> world" where
  "on_bound ev f w = (case bind_method f w of (g, w') \<Rightarrow> w'\<lparr>bus := on ev g (bus w')\<rparr>)"

definition off_bound :: "string \<Rightarrow> method_ref \<Rightarrow> world \<Rightarrow> world" where
  "off_bound ev f w = (case bind_method f w of (g, w') \<Rightarrow> w'\<lparr>bus := off ev g (bus w')\<rparr>)"

definition setupEventListeners :: "world \<Rightarrow> world" where
  "setupEventListeners w =
     (let w1 = on_bound ''block-finalized'' HandleNewBlock w;
          w2 = on_bound ''transaction-pending'' HandleTransactionUpdate w1;
          w3 = on_bound ''transaction-proposed'' HandleTransactionUpdate w2;
          w4 = on_bound ''transaction-confirmed'' HandleTransactionUpdate w3
      in on_bound ''transaction-rejected'' HandleTransactionRejected w4)"

definition cleanup :: "world \<Rightarrow> world" where
  "cleanup w =
     (let w1 = off_bound ''block-finalized'' HandleNewBlock w;
          w2 = off_bound ''transaction-pending'' HandleTransactionUpdate w1;
          w3 = off_bound ''transaction-proposed'' HandleTransactionUpdate w2;
          w4 = off_bound ''transaction-confirmed'' HandleTransactionUpdate w3
      in off_bound ''transaction-rejected'' HandleTransactionRejected w4)"

text \<open>\<open>new ChainDataManager()\<close> on a bus without listeners.\<close>

definition new_ChainDataManager :: world where
  "new_ChainDataManager =
     setupEventListeners \<lparr>bus = [], mgr = initial, next_fn = 0, trace = []\<rparr>"

text \<open>The five inbound events of the bus contract, each with the payload of its
  interface. (What a handler does with \<open>null\<close> in place of the payload is part of the
  handler above.)\<close>

datatype bus_event =
    BlockFinalized block
  | TransactionPending enhanced_transaction
  | TransactionProposed enhanced_transaction
  | TransactionConfirmed enhanced_transaction
  | TransactionRejected enhanced_transaction

fun event_name :: "bus_event \<Rightarrow> string" where
  "event_name (BlockFinalized _) = ''block-finalized''"
| "event_name (TransactionPending _) = ''transaction-pending''"
| "event_name (TransactionProposed _) = ''transaction-proposed''"
| "event_name (TransactionConfirmed _) = ''transaction-confirmed''"
| "event_name (TransactionRejected _) = ''transaction-rejected''"

fun tx_of :: "bus_event \<Rightarrow> enhanced_transaction option" where
  "tx_of (BlockFinalized _) = None"
| "tx_of (TransactionPending t) = Some t"
| "tx_of (TransactionProposed t) = Some t"
| "tx_of (TransactionConfirmed t) = Some t"
| "tx_of (TransactionRejected t) = Some t"

text \<open>Calling a method with the payload of an event, which is an object of its
  interface. A method called with the payload of the other interface is a call its
  signature excludes; \<open>setupEventListeners\<close> makes no such registration, and the model
  leaves the manager alone there.\<close>

definition invoke :: "js_env \<Rightarrow> method_ref \<Rightarrow> bus_event \<Rightarrow> manager \<Rightarrow> outcome" where
  "invoke env f e m =
     (case (f, e, tx_of e) of
        (HandleNewBlock, BlockFinalized b, _) \<Rightarrow> handleNewBlock env m (Some b)
      | (HandleTransactionUpdate, _, Some t) \<Rightarrow> handleTransactionUpdate env m (Some t)
      | (HandleTransactionRejected, _, Some t) \<Rightarrow> handleTransactionRejected m (Some t)
      | _ \<Rightarrow> (m, [], None))"

fun call_listeners :: "js_env \<Rightarrow> bound_fn list \<Rightarrow> bus_event \<Rightarrow> world \<Rightarrow> world \<times> js_error option" where
  "call_listeners env [] e w = (w, None)"
| "call_listeners env (f # fs) e w =
     (case invoke env (fn_method f) e (mgr w) of
        (m', fx, exn) \<Rightarrow>
          let w' = w\<lparr>mgr := m', trace := trace w @ fx\<rparr>
          in (case exn of Some x \<Rightarrow> (w', Some x) | None \<Rightarrow> call_listeners env fs e w'))"

definition emit :: "js_env \<Rightarrow> bus_event \<Rightarrow> world \<Rightarrow> world \<times> js_error option" where
  "emit env e w = call_listeners env (listeners (event_name e) (bus w)) e w"

text \<open>The engine after a sequence of inbound events, from its construction.\<close>

definition run :: "js_env \<Rightarrow> bus_event list \<Rightarrow> world" where
  "run env es = foldl (\<lambda>w e. fst (emit env e w)) new_ChainDataManager es"

section \<open>The normalizer: \<open>CKBChainVizService.handleMessage\<close>\<close>

text \<open>
  The socket hands \<open>handleMessage\<close> whatever arrives. \<open>None\<close> stands for \<open>null\<close> or
  \<open>undefined\<close> in place of the message; every other value has the three properties that
  the first statement reads, each possibly \<open>undefined\<close>. A \<open>type\<close> or \<open>channel\<close> that is
  not a string is written \<open>None\<close>: the \<open>switch\<close> compares \<open>type\<close> with string literals
  by strict equality, so such a value reaches the \<open>default\<close> branch, and \<open>channel\<close> is only
  printed. \<open>handleMessage\<close> never looks into the payload, so the payload is a type
  parameter. What is handed to \<open>EventBus.emit\<close> is the payload itself or the copy
  \<open>{...payload, status}\<close>. The bus is a parameter: \<open>publish name value w\<close> is the state
  after \<open>EventBus.emit\<close> together with the exception of a listener, if one raised.
\<close>

record 'p message =
  channel :: "string option"
  msg_type :: "string option"
  payload :: 'p

datatype 'p published = Verbatim 'p | WithStatus 'p tx_status

type_synonym ('p, 'w) publisher = "string \<Rightarrow> 'p published \<Rightarrow> 'w \<Rightarrow> 'w \<times> js_error option"

text \<open>The \<open>switch\<close> inside the \<open>try\<close>; the third component is the console output.\<close>

definition handleMessage_try ::
  "('p, 'w) publisher \<Rightarrow> 'p message \<Rightarrow> 'w \<Rightarrow> 'w \<times> js_error option \<times> (level \<times> string) list" where
  "handleMessage_try publish d w =
     (if msg_type d = Some ''block.finalized'' then
        (case publish ''block-finalized'' (Verbatim (payload d)) w of (w', x) \<Rightarrow> (w', x, []))
      else if msg_type d = Some ''transaction.pending'' then
        (case publish ''transaction-pending'' (WithStatus (payload d) PENDING) w of
           (w', x) \<Rightarrow> (w', x, []))
      else if msg_type d = Some ''transaction.proposed'' then
        (case publish ''transaction-proposed'' (WithStatus (payload d) PROPOSED) w of
           (w', x) \<Rightarrow> (w', x, []))
      else if msg_type d = Some ''transaction.confirmed'' then
        (case publish ''transaction-confirmed'' (WithStatus (payload d) CONFIRMED) w of
           (w', x) \<Rightarrow> (w', x, []))
      else if msg_type d = Some ''transaction.rejected'' then
        (case publish ''transaction-rejected'' (WithStatus (payload d) REJECTED) w of
           (w', x) \<Rightarrow> (w', x, []))
      else (w, None, [(Warn, ''Unknown message type:'')]))"

text \<open>The whole method. Its first statement, \<open>const { channel, type, payload } = data\<close>,
  and the \<open>console.log\<close> after it stand before the \<open>try\<close>: reading the properties of
  \<open>null\<close> or \<open>undefined\<close> raises a TypeError that nothing in the method catches.\<close>

definition handleMessage ::
  "('p, 'w) publisher \<Rightarrow> 'p message option \<Rightarrow> 'w \<Rightarrow>
     'w \<times> js_error option \<times> (level \<times> string) list" where
  "handleMessage publish data w =
     (case data of
        None \<Rightarrow> (w, Some TypeError, [])
      | Some d \<Rightarrow>
         (case handleMessage_try publish d w of
            (w', None, out) \<Rightarrow> (w', None, (Log, ''Received event'') # out)
          | (w', Some x, out) \<Rightarrow>
              (w', None, (Log, ''Received event'') # out @
                 [(Error, ''Error handling WebSocket message:''),
                  (Error, ''Message data:'')])))"

section \<open>Notions of the specification\<close>

text \<open>The handler that \<open>setupEventListeners\<close> subscribes to each inbound event.\<close>

fun handler_of :: "js_env \<Rightarrow> bus_event \<Rightarrow> manager \<Rightarrow> outcome" where
  "handler_of env (BlockFinalized b) m = handleNewBlock env m (Some b)"
| "handler_of env (TransactionPending t) m = handleTransactionUpdate env m (Some t)"
| "handler_of env (TransactionProposed t) m = handleTransactionUpdate env m (Some t)"
| "handler_of env (TransactionConfirmed t) m = handleTransactionUpdate env m (Some t)"
| "handler_of env (TransactionRejected t) m = handleTransactionRejected m (Some t)"

text \<open>The integer that a string of decimal digits (code units 48 to 57) denotes, digit
  by position.\<close>

definition is_decimal_digit :: "nat \<Rightarrow> bool" where
  "is_decimal_digit c = (48 \<le> c \<and> c \<le> 57)"

fun decimal_value :: "code_units \<Rightarrow> int" where
  "decimal_value [] = 0"
| "decimal_value (c # cs) = (int c - 48) * 10 ^ length cs + decimal_value cs"

text \<open>The blocks of the \<open>block-finalized\<close> events of a sequence whose reward
  \<open>BigInt\<close> accepts, in arrival order.\<close>

definition reward_accepted :: "block \<Rightarrow> bool" where
  "reward_accepted b =
     (case BigInt_string (if reward b = [] then units ''0'' else reward b) of
        Inl _ \<Rightarrow> False | Inr _ \<Rightarrow> True)"

fun accepted_blocks :: "bus_event list \<Rightarrow> block list" where
  "accepted_blocks [] = []"
| "accepted_blocks (BlockFinalized b # es) =
     (if reward_accepted b then b # accepted_blocks es else accepted_blocks es)"
| "accepted_blocks (_ # es) = accepted_blocks es"

text \<open>The mean of the consecutive differences of a list of time values.\<close>

definition deltas :: "rat list \<Rightarrow> rat list" where
  "deltas ts = map (\<lambda>(a, b). b - a) (zip ts (tl ts))"

definition mean :: "rat list \<Rightarrow> rat" where
  "mean xs = sum_list xs / of_nat (length xs)"

text \<open>The throughput as the specification words it: the sum of the last ten counts over
  ten times the average interval.\<close>

definition claimed_throughput :: "rat list \<Rightarrow> rat \<Rightarrow> rat" where
  "claimed_throughput cs avg = sum_list (slice_last 10 cs) / (10 * avg)"

text \<open>The status that the specification derives from the last part of a message type,
  and the name of a status.\<close>

definition status_of_kind :: "string \<Rightarrow> tx_status option" where
  "status_of_kind k =
     map_of [(''pending'', PENDING), (''proposed'', PROPOSED),
             (''confirmed'', CONFIRMED), (''rejected'', REJECTED)] k"

section \<open>Sample inputs\<close>

text \<open>A host that agrees with JavaScript on the strings used below.\<close>

definition sample_env :: js_env where
  "sample_env =
     \<lparr>parseInt = (\<lambda>s. case digits 10 (units s) of None \<Rightarrow> NaN | Some n \<Rightarrow> Fin (of_nat n)),
      dateTime = (\<lambda>s.
        if s = ''2024-01-01T00:00:00.000Z'' then Fin 1704067200000
        else if s = ''2024-01-01T00:00:10.000Z'' then Fin 1704067210000
        else if s = ''2024-01-01T00:00:25.000Z'' then Fin 1704067225000
        else NaN)\<rparr>"

definition block_a :: block where
  "block_a =
     \<lparr>blockNumber = ''100'', blockHash = ''0xa'',
      block_timestamp = ''2024-01-01T00:00:00.000Z'', miner = ''ckb1'',
      reward = units ''123456789012345678'', transactionCount = Fin 3,
      proposalsCount = None, unclesCount = None, block_transactions = []\<rparr>"

definition block_b :: block where
  "block_b =
     \<lparr>blockNumber = ''101'', blockHash = ''0xb'',
      block_timestamp = ''2024-01-01T00:00:10.000Z'', miner = ''ckb1'',
      reward = units ''1000'', transactionCount = Fin 5,
      proposalsCount = None, unclesCount = None, block_transactions = []\<rparr>"

definition block_c :: block where
  "block_c =
     \<lparr>blockNumber = ''102'', blockHash = ''0xc'',
      block_timestamp = ''2024-01-01T00:00:25.000Z'', miner = ''ckb1'',
      reward = units ''1000'', transactionCount = Fin 7,
      proposalsCount = None, unclesCount = None, block_transactions = []\<rparr>"

definition block_bad :: block where
  "block_bad =
     \<lparr>blockNumber = ''103'', blockHash = ''0xd'',
      block_timestamp = ''2024-01-01T00:00:25.000Z'', miner = ''ckb1'',
      reward = units ''12.5'', transactionCount = Fin 2,
      proposalsCount = None, unclesCount = None, block_transactions = []\<rparr>"

text \<open>A block whose reward is \<open>12\<close> after a no-break space (U+00A0).\<close>

definition block_nbsp :: block where
  "block_nbsp = block_a\<lparr>reward := 160 # units ''12''\<rparr>"

text \<open>A block whose transaction count is NaN, followed by ten blocks with finite
  counts.\<close>

definition eleven_blocks :: "bus_event list" where
  "eleven_blocks =
     [BlockFinalized (block_a\<lparr>transactionCount := NaN\<rparr>),
      BlockFinalized block_a, BlockFinalized block_b, BlockFinalized block_a,
      BlockFinalized block_b, BlockFinalized block_a, BlockFinalized block_b,
      BlockFinalized block_a, BlockFinalized block_b, BlockFinalized block_a,
      BlockFinalized block_b]"

definition tx1 :: "tx_status \<Rightarrow> enhanced_transaction" where
  "tx1 s =
     \<lparr>txHash = ''T1'', tx_timestamp = ''2024-01-01T00:00:00.000Z'', tx_context = None,
      status = s\<rparr>"

text \<open>A bus for the normalizer that records what is published and whose listener of
  \<open>block-finalized\<close> raises.\<close>

definition recording_bus :: "(nat, (string \<times> nat published) list) publisher" where
  "recording_bus name v w =
     (w @ [(name, v)], if name = ''block-finalized'' then Some ListenerError else None)"

definition msg_block :: "nat message" where
  "msg_block = \<lparr>channel = Some ''chain'', msg_type = Some ''block.finalized'', payload = 1\<rparr>"

definition msg_unknown :: "nat message" where
  "msg_unknown = \<lparr>channel = Some ''chain'', msg_type = Some ''block.orphaned'', payload = 2\<rparr>"

definition msg_pending :: "nat message" where
  "msg_pending =
     \<lparr>channel = Some ''transactions'', msg_type = Some ''transaction.pending'', payload = 3\<rparr>"

section \<open>The bus after construction\<close>

lemma bus_new:
  "bus new_ChainDataManager =
     [(''block-finalized'', \<lparr>fn_id = 0, fn_method = HandleNewBlock\<rparr>),
      (''transaction-pending'', \<lparr>fn_id = 1, fn_method = HandleTransactionUpdate\<rparr>),
      (''transaction-proposed'', \<lparr>fn_id = 2, fn_method = HandleTransactionUpdate\<rparr>),
      (''transaction-confirmed'', \<lparr>fn_id = 3, fn_method = HandleTransactionUpdate\<rparr>),
      (''transaction-rejected'', \<lparr>fn_id = 4, fn_method = HandleTransactionRejected\<rparr>)]"
  by (simp add: new_ChainDataManager_def setupEventListeners_def on_bound_def bind_method_def
      on_def)

lemma mgr_new: "mgr new_ChainDataManager = initial"
  by (simp add: new_ChainDataManager_def setupEventListeners_def on_bound_def bind_method_def)

lemma next_fn_new: "next_fn new_ChainDataManager = 5"
  by (simp add: new_ChainDataManager_def setupEventListeners_def on_bound_def bind_method_def)

lemma handleNewBlock_no_exn: "snd (snd (handleNewBlock env m (Some b))) = None"
  by (simp add: handleNewBlock_def split: prod.splits option.splits)

lemma handleTransactionUpdate_no_exn: "snd (snd (handleTransactionUpdate env m (Some t))) = None"
  by (simp add: handleTransactionUpdate_def split: prod.splits option.splits)

lemma handler_of_no_exn: "snd (snd (handler_of env e m)) = None"
  by (cases e) (simp_all add: handleNewBlock_no_exn handleTransactionUpdate_no_exn
      handleTransactionRejected_def)

text \<open>With the listeners of the constructor on the bus, publishing an inbound event runs
  exactly the handler subscribed to it.\<close>

lemma emit_new:
  assumes "bus w = bus new_ChainDataManager"
  shows "emit env e w =
           (w\<lparr>mgr := fst (handler_of env e (mgr w)),
              trace := trace w @ fst (snd (handler_of env e (mgr w)))\<rparr>, None)"
proof -
  obtain m' fx x where h: "handler_of env e (mgr w) = (m', fx, x)"
    by (cases "handler_of env e (mgr w)") auto
  with handler_of_no_exn [of env e "mgr w"] have x: "x = None" by simp
  show ?thesis
    using h x assms
    by (cases e) (simp_all add: emit_def bus_new listeners_def invoke_def)
qed

lemma run_Nil: "run env [] = new_ChainDataManager"
  by (simp add: run_def)

lemma run_snoc: "run env (es @ [e]) = fst (emit env e (run env es))"
  by (simp add: run_def)

lemma bus_run: "bus (run env es) = bus new_ChainDataManager"
proof (induction es rule: rev_induct)
  case Nil
  show ?case by (simp add: run_Nil)
next
  case (snoc e es)
  then show ?case by (simp add: run_snoc emit_new)
qed

lemma next_fn_run: "next_fn (run env es) = 5"
proof (induction es rule: rev_induct)
  case Nil
  show ?case by (simp add: run_Nil next_fn_new)
next
  case (snoc e es)
  then show ?case by (simp add: run_snoc emit_new bus_run)
qed

lemma emit_run:
  "emit env e (run env es) =
     ((run env es)\<lparr>mgr := fst (handler_of env e (mgr (run env es))),
                   trace := trace (run env es) @ fst (snd (handler_of env e (mgr (run env es))))\<rparr>,
      None)"
  by (rule emit_new) (rule bus_run)

lemma mgr_run_Nil: "mgr (run env []) = initial"
  by (simp add: run_Nil mgr_new)

lemma mgr_run_snoc: "mgr (run env (es @ [e])) = fst (handler_of env e (mgr (run env es)))"
  by (simp add: run_snoc emit_run)

section \<open>Metrics of the initial state\<close>

text \<open>
  Claim C9. Right after construction, with no block ingested, \<open>getMetrics()\<close> returns
  normally, and the average block interval, the throughput, the hash rate, the pending
  count and the confirmation time are all zero.
\<close>

theorem metrics_zero_state:
  "getMetrics (mgr new_ChainDataManager) =
     Inr \<lparr>averageBlockTime = Fin 0, transactionThroughput = Fin 0, networkHashRate = 0,
          pendingTxCount = 0, confirmationTime = Fin 0\<rparr>"
  by (simp add: mgr_new initial_def getMetrics_def calculateAverageBlockTime_def
      calculateTransactionThroughput_def estimateHashRate_def
      calculateAverageConfirmationTime_def)

section \<open>States of the manager along a run\<close>


lemma handleNewBlock_state:
  "fst (handleNewBlock env m (Some b)) =
     (case processBlock env b of
        Inl _ \<Rightarrow> m
      | Inr pb \<Rightarrow>
          m\<lparr>blocks := AList.update (blockHash b) pb (blocks m),
            blockTimestamps := push_window (blockTimestamps m) (pb_timestamp pb),
            transactionCounts := push_window (transactionCounts m) (pb_transactionCount pb)\<rparr>)"
  by (simp add: handleNewBlock_def handleNewBlock_try_def Let_def split: sum.splits)

lemma handleTransactionUpdate_state:
  "fst (handleTransactionUpdate env m (Some t)) =
     m\<lparr>transactions := AList.update (txHash t) (processTransaction env t) (transactions m)\<rparr>"
  by (simp add: handleTransactionUpdate_def handleTransactionUpdate_try_def Let_def)

lemma handleTransactionRejected_state:
  "fst (handleTransactionRejected m (Some t)) =
     m\<lparr>transactions := AList.delete (txHash t) (transactions m)\<rparr>"
  by (simp add: handleTransactionRejected_def)

lemma processBlock_difficulty: "processBlock env b = Inr pb \<Longrightarrow> pb_difficulty pb = Fin 0"
  by (auto simp: processBlock_def split: sum.splits)

lemma set_update_subset: "set (AList.update k v al) \<subseteq> insert (k, v) (set al)"
  by (induction al) auto

lemma difficulty_step:
  assumes "\<forall>p \<in> set (blocks m). pb_difficulty (snd p) = Fin 0"
  shows "\<forall>p \<in> set (blocks (fst (handler_of env e m))). pb_difficulty (snd p) = Fin 0"
proof (cases e)
  case (BlockFinalized b)
  show ?thesis
  proof (cases "processBlock env b")
    case (Inl x)
    with BlockFinalized assms show ?thesis by (simp add: handleNewBlock_state)
  next
    case (Inr pb)
    have "set (AList.update (blockHash b) pb (blocks m)) \<subseteq> insert (blockHash b, pb) (set (blocks m))"
      by (rule set_update_subset)
    with assms processBlock_difficulty [OF Inr] BlockFinalized Inr show ?thesis
      by (auto simp: handleNewBlock_state)
  qed
qed (use assms in \<open>simp_all add: handleTransactionUpdate_state handleTransactionRejected_state\<close>)

lemma difficulty_run: "\<forall>p \<in> set (blocks (mgr (run env es))). pb_difficulty (snd p) = Fin 0"
proof (induction es rule: rev_induct)
  case Nil
  show ?case by (simp add: mgr_run_Nil initial_def)
next
  case (snoc e es)
  show ?case unfolding mgr_run_snoc by (rule difficulty_step) (rule snoc.IH)
qed

lemma foldl_add_Fin: "foldl (\<lambda>sum x. num_add sum x) (Fin a) (map Fin xs) = Fin (a + sum_list xs)"
  by (induction xs arbitrary: a) (simp_all add: add.assoc)

lemma reduce_sum_Fin: "reduce_sum (map Fin xs) = Fin (sum_list xs)"
  by (simp add: reduce_sum_def foldl_add_Fin)

lemma foldl_difficulty_zero:
  "\<forall>b \<in> set bs. pb_difficulty b = Fin 0 \<Longrightarrow>
   foldl (\<lambda>sum b. num_add sum (pb_difficulty b)) (Fin 0) bs = Fin 0"
  by (induction bs) simp_all

lemma set_slice_last: "set (slice_last n xs) \<subseteq> set xs"
  by (simp add: slice_last_def set_drop_subset)

lemma length_slice_last: "length (slice_last n xs) = min n (length xs)"
  by (simp add: slice_last_def)

lemma estimateHashRate_zero:
  assumes "\<forall>p \<in> set (blocks m). pb_difficulty (snd p) = Fin 0"
  shows "estimateHashRate m = Inr 0"
proof (cases "blocks m = []")
  case True
  then show ?thesis by (simp add: estimateHashRate_def)
next
  case False
  let ?recent = "slice_last 10 (map snd (blocks m))"
  have "\<forall>b \<in> set ?recent. pb_difficulty b = Fin 0"
    using assms set_slice_last [of 10 "map snd (blocks m)"] by auto
  then have sum0: "foldl (\<lambda>sum b. num_add sum (pb_difficulty b)) (Fin 0) ?recent = Fin 0"
    by (rule foldl_difficulty_zero)
  have len: "length ?recent \<noteq> 0"
    using False by (simp add: length_slice_last)
  show ?thesis
  proof (cases "calculateAverageBlockTime m")
    case NaN
    with False show ?thesis by (simp add: estimateHashRate_def Let_def)
  next
    case (Fin a)
    with False sum0 len show ?thesis by (simp add: estimateHashRate_def Let_def)
  qed
qed

lemma getMetrics_run:
  "getMetrics (mgr (run env es)) =
     Inr \<lparr>averageBlockTime = calculateAverageBlockTime (mgr (run env es)),
          transactionThroughput = calculateTransactionThroughput (mgr (run env es)),
          networkHashRate = 0,
          pendingTxCount =
            length (filter (\<lambda>tx. ptx_status tx = PENDING) (map snd (transactions (mgr (run env es))))),
          confirmationTime = calculateAverageConfirmationTime (mgr (run env es))\<rparr>"
  by (simp add: getMetrics_def estimateHashRate_zero [OF difficulty_run])

section \<open>The sliding windows and the average interval\<close>


lemma push_window_slice_last: "push_window (slice_last 100 xs) x = slice_last 100 (xs @ [x])"
proof (cases "length xs < 100")
  case True
  then show ?thesis by (simp add: push_window_def slice_last_def Let_def)
next
  case False
  then have "Suc (length xs) - 100 = Suc (length xs - 100)" by simp
  with False show ?thesis
    by (simp add: push_window_def slice_last_def Let_def drop_Suc drop_tl)
qed

lemma processBlock_accepted:
  "reward_accepted b \<Longrightarrow>
   \<exists>pb. processBlock env b = Inr pb \<and> pb_timestamp pb = dateTime env (block_timestamp b)
        \<and> pb_transactionCount pb = transactionCount b \<and> pb_hash pb = blockHash b"
  by (cases "BigInt_string (if reward b = [] then units ''0'' else reward b)")
    (simp_all add: reward_accepted_def processBlock_def)

lemma processBlock_rejected: "\<not> reward_accepted b \<Longrightarrow> \<exists>x. processBlock env b = Inl x"
  by (cases "BigInt_string (if reward b = [] then units ''0'' else reward b)")
    (simp_all add: reward_accepted_def processBlock_def)

lemma accepted_blocks_snoc:
  "accepted_blocks (es @ [e]) = accepted_blocks es @ accepted_blocks [e]"
  by (induction es rule: accepted_blocks.induct) simp_all

lemma windows_step:
  assumes "blockTimestamps m = slice_last 100 (map (\<lambda>b. dateTime env (block_timestamp b)) bs)"
    and "transactionCounts m = slice_last 100 (map transactionCount bs)"
  shows "blockTimestamps (fst (handler_of env e m)) =
           slice_last 100 (map (\<lambda>b. dateTime env (block_timestamp b)) (bs @ accepted_blocks [e]))
         \<and> transactionCounts (fst (handler_of env e m)) =
           slice_last 100 (map transactionCount (bs @ accepted_blocks [e]))"
proof (cases e)
  case (BlockFinalized b)
  show ?thesis
  proof (cases "reward_accepted b")
    case True
    from processBlock_accepted [OF True, of env] obtain pb where
      "processBlock env b = Inr pb" "pb_timestamp pb = dateTime env (block_timestamp b)"
      "pb_transactionCount pb = transactionCount b" by blast
    with True BlockFinalized assms show ?thesis
      by (simp add: handleNewBlock_state push_window_slice_last)
  next
    case False
    from processBlock_rejected [OF False, of env] obtain x where "processBlock env b = Inl x" ..
    with False BlockFinalized assms show ?thesis
      by (simp add: handleNewBlock_state)
  qed
qed (use assms in \<open>simp_all add: handleTransactionUpdate_state handleTransactionRejected_state\<close>)

lemma windows_run:
  "blockTimestamps (mgr (run env es)) =
     slice_last 100 (map (\<lambda>b. dateTime env (block_timestamp b)) (accepted_blocks es))
   \<and> transactionCounts (mgr (run env es)) =
     slice_last 100 (map transactionCount (accepted_blocks es))"
proof (induction es rule: rev_induct)
  case Nil
  show ?case by (simp add: mgr_run_Nil initial_def slice_last_def)
next
  case (snoc e es)
  show ?case
    unfolding mgr_run_snoc accepted_blocks_snoc [of es e]
    using snoc.IH by (intro windows_step) simp_all
qed

lemma deltas_nth: "deltas qs = map (\<lambda>i. qs ! i - qs ! (i - 1)) [1..<length qs]"
  by (rule nth_equalityI) (auto simp: deltas_def nth_tl)

lemma intervals_Fin:
  "map (\<lambda>i. num_sub (map Fin qs ! i) (map Fin qs ! (i - 1))) [1..<length qs] = map Fin (deltas qs)"
proof (rule nth_equalityI)
  show "length (map (\<lambda>i. num_sub (map Fin qs ! i) (map Fin qs ! (i - 1))) [1..<length qs]) =
        length (map Fin (deltas qs))"
    by (simp add: deltas_nth)
next
  fix i
  assume "i < length (map (\<lambda>i. num_sub (map Fin qs ! i) (map Fin qs ! (i - 1))) [1..<length qs])"
  then have "i < length qs - 1" by simp
  then show "map (\<lambda>i. num_sub (map Fin qs ! i) (map Fin qs ! (i - 1))) [1..<length qs] ! i =
             map Fin (deltas qs) ! i"
    by (simp add: deltas_nth)
qed

lemma calculateAverageBlockTime_Fin:
  assumes "blockTimestamps m = map Fin qs" and "2 \<le> length qs"
  shows "calculateAverageBlockTime m = Fin (mean (deltas qs) / 1000)"
proof -
  have "length (deltas qs) = length qs - 1" by (simp add: deltas_nth)
  with assms(2) have nz: "(of_nat (length (deltas qs)) :: rat) \<noteq> 0" by simp
  have "calculateAverageBlockTime m =
          num_div (num_div (reduce_sum (map Fin (deltas qs)))
                           (Fin (of_nat (length (deltas qs))))) (Fin 1000)"
    using assms intervals_Fin [of qs] by (simp add: calculateAverageBlockTime_def Let_def)
  also have "\<dots> = Fin (sum_list (deltas qs) / of_nat (length (deltas qs)) / 1000)"
    using nz by (simp add: reduce_sum_Fin)
  finally show ?thesis by (simp add: mean_def)
qed

lemma calculateAverageBlockTime_short:
  "length (blockTimestamps m) < 2 \<Longrightarrow> calculateAverageBlockTime m = Fin 0"
  by (simp add: calculateAverageBlockTime_def)

section \<open>The sample run\<close>

lemma units_eq_Nil [simp]: "units s = [] \<longleftrightarrow> s = []"
  by (simp add: units_def)

lemma BigInt_sample_a: "BigInt_string (units ''123456789012345678'') = Inr 123456789012345678"
  by (simp add: units_def BigInt_string_def trim_def is_space_def unsigned_literal_def digits_def
      digit_of_def)

lemma BigInt_sample_b: "BigInt_string (units ''1000'') = Inr 1000"
  by (simp add: units_def BigInt_string_def trim_def is_space_def unsigned_literal_def digits_def
      digit_of_def)

lemma BigInt_sample_bad: "BigInt_string (units ''12.5'') = Inl SyntaxError"
  by (simp add: units_def BigInt_string_def trim_def is_space_def unsigned_literal_def digits_def
      digit_of_def)

lemma sample_accepted:
  "reward_accepted block_a" "reward_accepted block_b" "reward_accepted block_c"
  "\<not> reward_accepted block_bad"
  by (simp_all add: reward_accepted_def block_a_def block_b_def block_c_def block_bad_def
      BigInt_sample_a BigInt_sample_b BigInt_sample_bad)

lemma sample_windows_abc:
  "blockTimestamps (mgr (run sample_env
      [BlockFinalized block_a, BlockFinalized block_b, BlockFinalized block_c])) =
     map Fin [1704067200000, 1704067210000, 1704067225000]"
  "transactionCounts (mgr (run sample_env
      [BlockFinalized block_a, BlockFinalized block_b, BlockFinalized block_c])) =
     map Fin [3, 5, 7]"
  by (simp_all add: windows_run sample_accepted slice_last_def)
     (simp_all add: sample_env_def block_a_def block_b_def block_c_def)

lemma sample_windows_bc:
  "blockTimestamps (mgr (run sample_env [BlockFinalized block_b, BlockFinalized block_c])) =
     map Fin [1704067210000, 1704067225000]"
  "transactionCounts (mgr (run sample_env [BlockFinalized block_b, BlockFinalized block_c])) =
     map Fin [5, 7]"
  by (simp_all add: windows_run sample_accepted slice_last_def)
     (simp_all add: sample_env_def block_b_def block_c_def)

lemma BigInt_sample_nbsp: "BigInt_string (160 # units ''12'') = Inr 12"
  by (simp add: units_def BigInt_string_def trim_def is_space_def unsigned_literal_def digits_def
      digit_of_def)

lemma sample_accepted_nbsp: "reward_accepted block_nbsp"
  by (simp add: reward_accepted_def block_nbsp_def block_a_def BigInt_sample_nbsp)

lemma sample_accepted_variants:
  "reward_accepted (block_a\<lparr>block_timestamp := ''soon''\<rparr>)"
  "reward_accepted (block_c\<lparr>transactionCount := NaN\<rparr>)"
  "reward_accepted (block_a\<lparr>transactionCount := NaN\<rparr>)"
  by (simp_all add: reward_accepted_def block_a_def block_c_def BigInt_sample_a BigInt_sample_b)

lemma sample_windows_a:
  "blockTimestamps (mgr (run sample_env [BlockFinalized block_a])) = map Fin [1704067200000]"
  "transactionCounts (mgr (run sample_env [BlockFinalized block_a])) = map Fin [3]"
  by (simp_all add: windows_run sample_accepted slice_last_def)
     (simp_all add: sample_env_def block_a_def)

lemma sample_windows_invalid_date:
  "blockTimestamps (mgr (run sample_env
      [BlockFinalized block_a, BlockFinalized (block_a\<lparr>block_timestamp := ''soon''\<rparr>)])) =
     [Fin 1704067200000, NaN]"
  by (simp add: windows_run sample_accepted sample_accepted_variants slice_last_def)
     (simp add: sample_env_def block_a_def)

lemma sample_windows_nan_count:
  "blockTimestamps (mgr (run sample_env
      [BlockFinalized block_a, BlockFinalized block_b,
       BlockFinalized (block_c\<lparr>transactionCount := NaN\<rparr>)])) =
     map Fin [1704067200000, 1704067210000, 1704067225000]"
  "transactionCounts (mgr (run sample_env
      [BlockFinalized block_a, BlockFinalized block_b,
       BlockFinalized (block_c\<lparr>transactionCount := NaN\<rparr>)])) =
     [Fin 3, Fin 5, NaN]"
  by (simp_all add: windows_run sample_accepted sample_accepted_variants slice_last_def)
     (simp_all add: sample_env_def block_a_def block_b_def block_c_def)

section \<open>Average block interval\<close>

lemma num_add_NaN_right: "num_add a NaN = NaN"
  by (cases a) simp_all

lemma foldl_add_NaN: "foldl (\<lambda>sum x. num_add sum x) NaN xs = NaN"
  by (induction xs) simp_all

lemma reduce_sum_NaN:
  assumes "NaN \<in> set xs"
  shows "reduce_sum xs = NaN"
proof -
  have "foldl (\<lambda>sum x. num_add sum x) a xs = NaN" for a
    using assms
  proof (induction xs arbitrary: a)
    case Nil
    then show ?case by simp
  next
    case (Cons x xs)
    show ?case
    proof (cases "x = NaN")
      case True
      then show ?thesis by (simp add: num_add_NaN_right foldl_add_NaN)
    next
      case False
      with Cons.prems have "NaN \<in> set xs" by simp
      then show ?thesis by (simp add: Cons.IH)
    qed
  qed
  then show ?thesis by (simp add: reduce_sum_def)
qed

lemma num_sub_NaN: "num_sub NaN b = NaN" "num_sub a NaN = NaN"
  by (cases a, simp_all)

lemma calculateAverageBlockTime_NaN:
  assumes "NaN \<in> set (blockTimestamps m)" and "2 \<le> length (blockTimestamps m)"
  shows "calculateAverageBlockTime m = NaN"
proof -
  let ?ts = "blockTimestamps m"
  let ?iv = "map (\<lambda>i. num_sub (?ts ! i) (?ts ! (i - 1))) [1..<length ?ts]"
  from assms(1) obtain k where k: "k < length ?ts" "?ts ! k = NaN"
    by (auto simp: in_set_conv_nth)
  have "NaN \<in> set ?iv"
  proof (cases k)
    case 0
    with k assms(2) have "num_sub (?ts ! 1) (?ts ! (1 - 1)) = NaN" "1 \<in> set [1..<length ?ts]"
      by (simp_all add: num_sub_NaN)
    then show ?thesis by (metis (no_types, lifting) image_eqI set_map)
  next
    case (Suc j)
    with k have "num_sub (?ts ! k) (?ts ! (k - 1)) = NaN" "k \<in> set [1..<length ?ts]"
      by (simp_all add: num_sub_NaN)
    then show ?thesis by (metis (no_types, lifting) image_eqI set_map)
  qed
  then have "reduce_sum ?iv = NaN" by (rule reduce_sum_NaN)
  with assms(2) show ?thesis by (simp add: calculateAverageBlockTime_def Let_def)
qed

text \<open>
  Claim C6. In every state that the engine reaches, \<open>getMetrics()\<close> returns, and its
  average block interval is \<open>0\<close> while the window holds fewer than two time values, and
  otherwise the mean of the consecutive differences of the window, in seconds. For a
  window \<open>t\<close>, \<open>t + 10000\<close>, \<open>t + 25000\<close> it is 12.5.
\<close>

theorem average_block_interval:
  "\<exists>ms. getMetrics (mgr (run env es)) = Inr ms \<and>
     (length (blockTimestamps (mgr (run env es))) < 2 \<longrightarrow> averageBlockTime ms = Fin 0) \<and>
     (\<forall>qs. blockTimestamps (mgr (run env es)) = map Fin qs \<and> 2 \<le> length qs \<longrightarrow>
           averageBlockTime ms = Fin (mean (deltas qs) / 1000)) \<and>
     (\<forall>t. blockTimestamps (mgr (run env es)) = map Fin [t, t + 10000, t + 25000] \<longrightarrow>
           averageBlockTime ms = Fin (25 / 2)) \<and>
     (NaN \<in> set (blockTimestamps (mgr (run env es))) \<and>
      2 \<le> length (blockTimestamps (mgr (run env es))) \<longrightarrow> averageBlockTime ms = NaN)"
proof -
  let ?m = "mgr (run env es)"
  have short: "length (blockTimestamps ?m) < 2 \<longrightarrow> calculateAverageBlockTime ?m = Fin 0"
    by (simp add: calculateAverageBlockTime_short)
  have long: "\<forall>qs. blockTimestamps ?m = map Fin qs \<and> 2 \<le> length qs \<longrightarrow>
      calculateAverageBlockTime ?m = Fin (mean (deltas qs) / 1000)"
    by (simp add: calculateAverageBlockTime_Fin)
  have three: "\<forall>t. blockTimestamps ?m = map Fin [t, t + 10000, t + 25000] \<longrightarrow>
      calculateAverageBlockTime ?m = Fin (25 / 2)"
  proof (intro allI impI)
    fix t :: rat
    assume "blockTimestamps ?m = map Fin [t, t + 10000, t + 25000]"
    then have "calculateAverageBlockTime ?m = Fin (mean (deltas [t, t + 10000, t + 25000]) / 1000)"
      by (rule calculateAverageBlockTime_Fin) simp
    then show "calculateAverageBlockTime ?m = Fin (25 / 2)"
      by (simp add: mean_def deltas_def)
  qed
  have nan: "NaN \<in> set (blockTimestamps ?m) \<and> 2 \<le> length (blockTimestamps ?m) \<longrightarrow>
      calculateAverageBlockTime ?m = NaN"
    by (simp add: calculateAverageBlockTime_NaN)
  from short long three nan show ?thesis
    by (simp add: getMetrics_run)
qed

theorem average_block_interval_witness:
  "map_sum id averageBlockTime (getMetrics (mgr (run sample_env
      [BlockFinalized block_a, BlockFinalized block_b, BlockFinalized block_c]))) =
     Inr (Fin (25 / 2)) \<and>
   map_sum id averageBlockTime (getMetrics (mgr (run sample_env [BlockFinalized block_a]))) =
     Inr (Fin 0) \<and>
   map_sum id averageBlockTime (getMetrics (mgr (run sample_env
      [BlockFinalized block_a, BlockFinalized (block_a\<lparr>block_timestamp := ''soon''\<rparr>)]))) =
     Inr NaN"
proof -
  have three: "map_sum id averageBlockTime (getMetrics (mgr (run sample_env
      [BlockFinalized block_a, BlockFinalized block_b, BlockFinalized block_c]))) =
     Inr (Fin (25 / 2))"
    using average_block_interval [of sample_env
          "[BlockFinalized block_a, BlockFinalized block_b, BlockFinalized block_c]"]
    by (auto simp: sample_windows_abc)
  have one: "map_sum id averageBlockTime
      (getMetrics (mgr (run sample_env [BlockFinalized block_a]))) = Inr (Fin 0)"
    using average_block_interval [of sample_env "[BlockFinalized block_a]"]
    by (auto simp: sample_windows_a)
  have invalid: "map_sum id averageBlockTime (getMetrics (mgr (run sample_env
      [BlockFinalized block_a, BlockFinalized (block_a\<lparr>block_timestamp := ''soon''\<rparr>)]))) =
     Inr NaN"
    using average_block_interval [of sample_env
          "[BlockFinalized block_a, BlockFinalized (block_a\<lparr>block_timestamp := ''soon''\<rparr>)]"]
    by (auto simp: sample_windows_invalid_date)
  from three one invalid show ?thesis by blast
qed

section \<open>The windows hold the last hundred accepted blocks\<close>

lemma accepted_blocks_append:
  "accepted_blocks (es @ fs) = accepted_blocks es @ accepted_blocks fs"
  by (induction es rule: accepted_blocks.induct) simp_all

lemma accepted_blocks_replicate:
  "accepted_blocks (replicate n (BlockFinalized b)) = (if reward_accepted b then replicate n b else [])"
  by (induction n) simp_all

lemma window_after_block:
  "blockTimestamps (mgr (run env (es @ [BlockFinalized b]))) =
     (if reward_accepted b
      then push_window (blockTimestamps (mgr (run env es))) (dateTime env (block_timestamp b))
      else blockTimestamps (mgr (run env es)))"
  "transactionCounts (mgr (run env (es @ [BlockFinalized b]))) =
     (if reward_accepted b
      then push_window (transactionCounts (mgr (run env es))) (transactionCount b)
      else transactionCounts (mgr (run env es)))"
proof -
  show "blockTimestamps (mgr (run env (es @ [BlockFinalized b]))) =
     (if reward_accepted b
      then push_window (blockTimestamps (mgr (run env es))) (dateTime env (block_timestamp b))
      else blockTimestamps (mgr (run env es)))"
  proof (cases "reward_accepted b")
    case True
    from processBlock_accepted [OF True, of env] obtain pb where
      "processBlock env b = Inr pb" "pb_timestamp pb = dateTime env (block_timestamp b)" by blast
    with True show ?thesis by (simp add: mgr_run_snoc handleNewBlock_state)
  next
    case False
    from processBlock_rejected [OF False, of env] obtain x where "processBlock env b = Inl x" ..
    with False show ?thesis by (simp add: mgr_run_snoc handleNewBlock_state)
  qed
  show "transactionCounts (mgr (run env (es @ [BlockFinalized b]))) =
     (if reward_accepted b
      then push_window (transactionCounts (mgr (run env es))) (transactionCount b)
      else transactionCounts (mgr (run env es)))"
  proof (cases "reward_accepted b")
    case True
    from processBlock_accepted [OF True, of env] obtain pb where
      "processBlock env b = Inr pb" "pb_transactionCount pb = transactionCount b" by blast
    with True show ?thesis by (simp add: mgr_run_snoc handleNewBlock_state)
  next
    case False
    from processBlock_rejected [OF False, of env] obtain x where "processBlock env b = Inl x" ..
    with False show ?thesis by (simp add: mgr_run_snoc handleNewBlock_state)
  qed
qed

text \<open>
  Claim C3, as the code has it. A \<open>block-finalized\<close> event whose reward \<open>BigInt\<close> accepts
  appends the time value of the block to the time window and its transaction count to
  the count window, and the oldest entry leaves a window that would exceed 100 entries; an
  event whose reward \<open>BigInt\<close> rejects changes neither window. So after any sequence of
  events the two windows hold the values of the last 100 accepted blocks in arrival order,
  and exactly 100 values once 100 blocks have been accepted.
\<close>

theorem windows_hold_last_accepted:
  "blockTimestamps (mgr (run env (es @ [BlockFinalized b]))) =
     (if reward_accepted b
      then push_window (blockTimestamps (mgr (run env es))) (dateTime env (block_timestamp b))
      else blockTimestamps (mgr (run env es))) \<and>
   transactionCounts (mgr (run env (es @ [BlockFinalized b]))) =
     (if reward_accepted b
      then push_window (transactionCounts (mgr (run env es))) (transactionCount b)
      else transactionCounts (mgr (run env es))) \<and>
   blockTimestamps (mgr (run env es)) =
     slice_last 100 (map (\<lambda>b. dateTime env (block_timestamp b)) (accepted_blocks es)) \<and>
   transactionCounts (mgr (run env es)) =
     slice_last 100 (map transactionCount (accepted_blocks es)) \<and>
   (100 \<le> length (accepted_blocks es) \<longrightarrow>
      length (blockTimestamps (mgr (run env es))) = 100 \<and>
      length (transactionCounts (mgr (run env es))) = 100)"
proof -
  have "100 \<le> length (accepted_blocks es) \<longrightarrow>
      length (blockTimestamps (mgr (run env es))) = 100 \<and>
      length (transactionCounts (mgr (run env es))) = 100"
    by (simp add: windows_run length_slice_last)
  then show ?thesis
    using window_after_block [of env es b] windows_run [of env es] by blast
qed

theorem windows_hold_last_accepted_witness:
  "length (blockTimestamps (mgr (run sample_env (replicate 150 (BlockFinalized block_a))))) = 100 \<and>
   length (transactionCounts (mgr (run sample_env (replicate 150 (BlockFinalized block_a))))) = 100 \<and>
   transactionCounts (mgr (run sample_env
      [BlockFinalized block_a, BlockFinalized block_bad, BlockFinalized block_b])) = [Fin 3, Fin 5] \<and>
   transactionCounts (mgr (run sample_env [BlockFinalized block_nbsp])) = [Fin 3]"
proof -
  note many = windows_hold_last_accepted
    [of sample_env "replicate 150 (BlockFinalized block_a)" block_a]
  note few = windows_hold_last_accepted
    [of sample_env "[BlockFinalized block_a, BlockFinalized block_bad, BlockFinalized block_b]"
        block_a]
  have "100 \<le> length (accepted_blocks (replicate 150 (BlockFinalized block_a)))"
    by (simp add: accepted_blocks_replicate sample_accepted)
  with many have full:
    "length (blockTimestamps (mgr (run sample_env (replicate 150 (BlockFinalized block_a))))) = 100 \<and>
     length (transactionCounts (mgr (run sample_env (replicate 150 (BlockFinalized block_a))))) = 100"
    by blast
  have "slice_last 100 (map transactionCount
      (accepted_blocks [BlockFinalized block_a, BlockFinalized block_bad, BlockFinalized block_b])) =
      [Fin 3, Fin 5]"
    by (simp add: sample_accepted slice_last_def) (simp add: block_a_def block_b_def)
  moreover from few have "transactionCounts (mgr (run sample_env
      [BlockFinalized block_a, BlockFinalized block_bad, BlockFinalized block_b])) =
      slice_last 100 (map transactionCount
      (accepted_blocks [BlockFinalized block_a, BlockFinalized block_bad, BlockFinalized block_b]))"
    by blast
  ultimately have "transactionCounts (mgr (run sample_env
      [BlockFinalized block_a, BlockFinalized block_bad, BlockFinalized block_b])) = [Fin 3, Fin 5]"
    by (simp only:)
  moreover have "transactionCounts (mgr (run sample_env [BlockFinalized block_nbsp])) = [Fin 3]"
    using windows_hold_last_accepted [of sample_env "[]" block_nbsp] sample_accepted_nbsp
    by (simp add: mgr_run_Nil initial_def push_window_def block_nbsp_def block_a_def)
  ultimately show ?thesis using full by blast
qed

text \<open>Against C3 as stated: the one event \<open>block_bad\<close> appends nothing, and after 100
  \<open>block-finalized\<close> events of which one is \<open>block_bad\<close> the windows hold 99 entries.\<close>

theorem windows_every_event_counterexample:
  "blockTimestamps (mgr (run sample_env [BlockFinalized block_bad])) = [] \<and>
   transactionCounts (mgr (run sample_env [BlockFinalized block_bad])) = [] \<and>
   length (replicate 99 (BlockFinalized block_a) @ [BlockFinalized block_bad]) = 100 \<and>
   length (blockTimestamps (mgr (run sample_env
      (replicate 99 (BlockFinalized block_a) @ [BlockFinalized block_bad])))) = 99 \<and>
   length (transactionCounts (mgr (run sample_env
      (replicate 99 (BlockFinalized block_a) @ [BlockFinalized block_bad])))) = 99"
  by (simp add: windows_run accepted_blocks_append accepted_blocks_replicate sample_accepted
      length_slice_last) (simp add: slice_last_def)

section \<open>Transaction throughput\<close>

lemma throughput_empty:
  "transactionCounts m = [] \<Longrightarrow> calculateTransactionThroughput m = Fin 0"
  by (simp add: calculateTransactionThroughput_def)

lemma throughput_not_positive:
  "\<not> num_gt (calculateAverageBlockTime m) (Fin 0) \<Longrightarrow> calculateTransactionThroughput m = Fin 0"
  by (simp add: calculateTransactionThroughput_def Let_def)

lemma slice_last_map: "slice_last n (map f xs) = map f (slice_last n xs)"
  by (simp add: slice_last_def drop_map)

lemma throughput_recent_Fin:
  assumes "slice_last 10 (transactionCounts m) = map Fin cs" and "transactionCounts m \<noteq> []"
    and "calculateAverageBlockTime m = Fin a" and "0 < a"
  shows "calculateTransactionThroughput m = Fin (sum_list cs / (of_nat (length cs) * a))"
proof -
  have "length cs = length (slice_last 10 (transactionCounts m))"
    by (simp add: assms(1))
  with assms(2) have "length cs \<noteq> 0"
    by (simp add: length_slice_last)
  with assms(4) have nz: "(of_nat (length cs) :: rat) * a \<noteq> 0" by simp
  from assms nz show ?thesis
    by (simp add: calculateTransactionThroughput_def Let_def reduce_sum_Fin)
qed

lemma throughput_NaN:
  assumes "NaN \<in> set (slice_last 10 (transactionCounts m))"
    and "num_gt (calculateAverageBlockTime m) (Fin 0)"
  shows "calculateTransactionThroughput m = NaN"
proof -
  from assms(1) have "transactionCounts m \<noteq> []" by (auto simp: slice_last_def)
  moreover from assms(1) have "reduce_sum (slice_last 10 (transactionCounts m)) = NaN"
    by (rule reduce_sum_NaN)
  ultimately show ?thesis
    using assms(2) by (simp add: calculateTransactionThroughput_def Let_def)
qed

lemma claimed_throughput_ten:
  "length cs = 10 \<Longrightarrow> sum_list cs / (of_nat (length cs) * a) = claimed_throughput cs a"
  by (simp add: claimed_throughput_def slice_last_def)

text \<open>Every state falls under one of the cases of the throughput.\<close>

lemma throughput_cases:
  "transactionCounts m = [] \<or> \<not> num_gt (calculateAverageBlockTime m) (Fin 0) \<or>
   NaN \<in> set (slice_last 10 (transactionCounts m)) \<or>
   (\<exists>cs a. slice_last 10 (transactionCounts m) = map Fin cs \<and>
           calculateAverageBlockTime m = Fin a \<and> 0 < a)"
proof (cases "calculateAverageBlockTime m")
  case NaN
  then show ?thesis by simp
next
  case (Fin a)
  show ?thesis
  proof (cases "NaN \<in> set (slice_last 10 (transactionCounts m))")
    case True
    then show ?thesis by simp
  next
    case False
    have "\<exists>cs. xs = map Fin cs" if "NaN \<notin> set xs" for xs :: "jsnum list"
      using that
    proof (induction xs)
      case Nil
      then show ?case by simp
    next
      case (Cons x xs)
      then obtain cs where "xs = map Fin cs" by auto
      moreover from Cons.prems obtain q where "x = Fin q" by (cases x) auto
      ultimately have "x # xs = map Fin (q # cs)" by simp
      then show ?case ..
    qed
    from this [OF False] obtain cs where "slice_last 10 (transactionCounts m) = map Fin cs" ..
    with Fin show ?thesis by (cases "0 < a") auto
  qed
qed

text \<open>
  Claim C2, as the code has it. In every state that the engine reaches, the throughput of
  \<open>getMetrics()\<close> is \<open>0\<close> when the count window is empty and when the average block
  interval is not greater than \<open>0\<close> (zero, negative or NaN); otherwise it is the sum of the
  last up to ten counts of the window divided by (the number of those counts times the
  average interval), which is the sum over (10 times the interval) once the window holds
  ten counts; a NaN among those last counts makes it NaN. These cases cover every state;
  what the window holds before its last ten entries plays no part.
\<close>

theorem throughput_over_recent_counts:
  "\<exists>ms. getMetrics (mgr (run env es)) = Inr ms \<and>
     (transactionCounts (mgr (run env es)) = [] \<longrightarrow> transactionThroughput ms = Fin 0) \<and>
     (averageBlockTime ms = Fin 0 \<longrightarrow> transactionThroughput ms = Fin 0) \<and>
     (\<not> num_gt (averageBlockTime ms) (Fin 0) \<longrightarrow> transactionThroughput ms = Fin 0) \<and>
     (\<forall>cs a. slice_last 10 (transactionCounts (mgr (run env es))) = map Fin cs \<and>
             transactionCounts (mgr (run env es)) \<noteq> [] \<and>
             averageBlockTime ms = Fin a \<and> 0 < a \<longrightarrow>
        transactionThroughput ms = Fin (sum_list cs / (of_nat (length cs) * a))) \<and>
     (\<forall>cs a. slice_last 10 (transactionCounts (mgr (run env es))) = map Fin cs \<and>
             10 \<le> length (transactionCounts (mgr (run env es))) \<and>
             averageBlockTime ms = Fin a \<and> 0 < a \<longrightarrow>
        transactionThroughput ms = Fin (claimed_throughput cs a)) \<and>
     (NaN \<in> set (slice_last 10 (transactionCounts (mgr (run env es)))) \<and>
      num_gt (averageBlockTime ms) (Fin 0) \<longrightarrow> transactionThroughput ms = NaN) \<and>
     (transactionCounts (mgr (run env es)) = [] \<or> \<not> num_gt (averageBlockTime ms) (Fin 0) \<or>
      NaN \<in> set (slice_last 10 (transactionCounts (mgr (run env es)))) \<or>
      (\<exists>cs a. slice_last 10 (transactionCounts (mgr (run env es))) = map Fin cs \<and>
              averageBlockTime ms = Fin a \<and> 0 < a))"
proof -
  let ?m = "mgr (run env es)"
  have full: "calculateTransactionThroughput ?m = Fin (claimed_throughput cs a)"
    if "slice_last 10 (transactionCounts ?m) = map Fin cs" "10 \<le> length (transactionCounts ?m)"
       "calculateAverageBlockTime ?m = Fin a" "0 < a" for cs a
  proof -
    from that(2) have ne: "transactionCounts ?m \<noteq> []" by auto
    have "length cs = length (slice_last 10 (transactionCounts ?m))"
      by (simp add: that(1))
    with that(2) have "length cs = 10" by (simp add: length_slice_last)
    then have "sum_list cs / (of_nat (length cs) * a) = claimed_throughput cs a"
      by (rule claimed_throughput_ten)
    with throughput_recent_Fin [OF that(1) ne that(3) that(4)] show ?thesis by simp
  qed
  have zero: "calculateAverageBlockTime ?m = Fin 0 \<Longrightarrow> calculateTransactionThroughput ?m = Fin 0"
    by (simp add: throughput_not_positive)
  have rules: "(transactionCounts ?m = [] \<longrightarrow> calculateTransactionThroughput ?m = Fin 0) \<and>
     (calculateAverageBlockTime ?m = Fin 0 \<longrightarrow> calculateTransactionThroughput ?m = Fin 0) \<and>
     (\<not> num_gt (calculateAverageBlockTime ?m) (Fin 0) \<longrightarrow>
        calculateTransactionThroughput ?m = Fin 0) \<and>
     (\<forall>cs a. slice_last 10 (transactionCounts ?m) = map Fin cs \<and> transactionCounts ?m \<noteq> [] \<and>
             calculateAverageBlockTime ?m = Fin a \<and> 0 < a \<longrightarrow>
        calculateTransactionThroughput ?m = Fin (sum_list cs / (of_nat (length cs) * a))) \<and>
     (\<forall>cs a. slice_last 10 (transactionCounts ?m) = map Fin cs \<and>
             10 \<le> length (transactionCounts ?m) \<and>
             calculateAverageBlockTime ?m = Fin a \<and> 0 < a \<longrightarrow>
        calculateTransactionThroughput ?m = Fin (claimed_throughput cs a)) \<and>
     (NaN \<in> set (slice_last 10 (transactionCounts ?m)) \<and>
      num_gt (calculateAverageBlockTime ?m) (Fin 0) \<longrightarrow> calculateTransactionThroughput ?m = NaN)"
    using full zero
    by (simp add: throughput_empty throughput_not_positive throughput_recent_Fin throughput_NaN)
  from rules throughput_cases [of ?m] show ?thesis
    by (simp add: getMetrics_run)
qed

lemma sample_average_abc:
  "calculateAverageBlockTime (mgr (run sample_env
      [BlockFinalized block_a, BlockFinalized block_b, BlockFinalized block_c])) = Fin (25 / 2)"
  by (simp add: calculateAverageBlockTime_Fin [OF sample_windows_abc(1)] mean_def deltas_def)

lemma sample_average_bc:
  "calculateAverageBlockTime (mgr (run sample_env
      [BlockFinalized block_b, BlockFinalized block_c])) = Fin 15"
  by (simp add: calculateAverageBlockTime_Fin [OF sample_windows_bc(1)] mean_def deltas_def)

lemma sample_windows_eleven:
  "blockTimestamps (mgr (run sample_env eleven_blocks)) =
     map Fin [1704067200000, 1704067200000, 1704067210000, 1704067200000, 1704067210000,
              1704067200000, 1704067210000, 1704067200000, 1704067210000, 1704067200000,
              1704067210000]"
  "transactionCounts (mgr (run sample_env eleven_blocks)) =
     NaN # map Fin [3, 5, 3, 5, 3, 5, 3, 5, 3, 5]"
  by (simp_all add: eleven_blocks_def windows_run sample_accepted sample_accepted_variants
      slice_last_def)
     (simp_all add: sample_env_def block_a_def block_b_def)

lemma sample_average_eleven:
  "calculateAverageBlockTime (mgr (run sample_env eleven_blocks)) = Fin 1"
  by (simp add: calculateAverageBlockTime_Fin [OF sample_windows_eleven(1)] mean_def deltas_def)

lemma sample_average_a:
  "calculateAverageBlockTime (mgr (run sample_env [BlockFinalized block_a])) = Fin 0"
  by (simp add: calculateAverageBlockTime_short sample_windows_a)

lemma sample_average_nan_count:
  "calculateAverageBlockTime (mgr (run sample_env
      [BlockFinalized block_a, BlockFinalized block_b,
       BlockFinalized (block_c\<lparr>transactionCount := NaN\<rparr>)])) = Fin (25 / 2)"
  by (simp add: calculateAverageBlockTime_Fin [OF sample_windows_nan_count(1)] mean_def deltas_def)

theorem throughput_over_recent_counts_witness:
  "map_sum id transactionThroughput (getMetrics (mgr (run sample_env
      [BlockFinalized block_a, BlockFinalized block_b, BlockFinalized block_c]))) =
     Inr (Fin (2 / 5)) \<and>
   transactionCounts (mgr (run sample_env eleven_blocks)) =
     NaN # map Fin [3, 5, 3, 5, 3, 5, 3, 5, 3, 5] \<and>
   map_sum id transactionThroughput (getMetrics (mgr (run sample_env eleven_blocks))) =
     Inr (Fin 4) \<and>
   map_sum id transactionThroughput (getMetrics (mgr (run sample_env []))) = Inr (Fin 0) \<and>
   map_sum id transactionThroughput (getMetrics (mgr (run sample_env [BlockFinalized block_a]))) =
     Inr (Fin 0) \<and>
   map_sum id transactionThroughput (getMetrics (mgr (run sample_env
      [BlockFinalized block_a, BlockFinalized block_b,
       BlockFinalized (block_c\<lparr>transactionCount := NaN\<rparr>)]))) = Inr NaN"
proof -
  let ?three = "[BlockFinalized block_a, BlockFinalized block_b, BlockFinalized block_c]"
  let ?nan = "[BlockFinalized block_a, BlockFinalized block_b,
       BlockFinalized (block_c\<lparr>transactionCount := NaN\<rparr>)]"
  from throughput_over_recent_counts [of sample_env ?three] obtain ms where
    ms: "getMetrics (mgr (run sample_env ?three)) = Inr ms"
    and recent: "\<forall>cs a. slice_last 10 (transactionCounts (mgr (run sample_env ?three))) = map Fin cs \<and>
             transactionCounts (mgr (run sample_env ?three)) \<noteq> [] \<and>
             averageBlockTime ms = Fin a \<and> 0 < a \<longrightarrow>
        transactionThroughput ms = Fin (sum_list cs / (of_nat (length cs) * a))"
    by blast
  from ms have "averageBlockTime ms = Fin (25 / 2)"
    by (auto simp: getMetrics_run sample_average_abc)
  with sample_windows_abc(2) have
    "slice_last 10 (transactionCounts (mgr (run sample_env ?three))) = map Fin [3, 5, 7] \<and>
     transactionCounts (mgr (run sample_env ?three)) \<noteq> [] \<and>
     averageBlockTime ms = Fin (25 / 2) \<and> (0::rat) < 25 / 2"
    by (simp add: slice_last_def)
  with recent have
    "transactionThroughput ms = Fin (sum_list [3, 5, 7] / (of_nat (length [3, 5, 7::rat]) * (25 / 2)))"
    by blast
  then have "transactionThroughput ms = Fin (2 / 5)"
    by simp
  with ms have three: "map_sum id transactionThroughput (getMetrics (mgr (run sample_env ?three))) =
      Inr (Fin (2 / 5))"
    by simp
  from throughput_over_recent_counts [of sample_env eleven_blocks] obtain ns where
    ns: "getMetrics (mgr (run sample_env eleven_blocks)) = Inr ns"
    and full: "\<forall>cs a. slice_last 10 (transactionCounts (mgr (run sample_env eleven_blocks))) =
               map Fin cs \<and>
             10 \<le> length (transactionCounts (mgr (run sample_env eleven_blocks))) \<and>
             averageBlockTime ns = Fin a \<and> 0 < a \<longrightarrow>
        transactionThroughput ns = Fin (claimed_throughput cs a)"
    by blast
  from ns have "averageBlockTime ns = Fin 1"
    by (auto simp: getMetrics_run sample_average_eleven)
  with sample_windows_eleven(2) have
    "slice_last 10 (transactionCounts (mgr (run sample_env eleven_blocks))) =
       map Fin [3, 5, 3, 5, 3, 5, 3, 5, 3, 5] \<and>
     10 \<le> length (transactionCounts (mgr (run sample_env eleven_blocks))) \<and>
     averageBlockTime ns = Fin 1 \<and> (0::rat) < 1"
    by (simp add: slice_last_def)
  with full have
    "transactionThroughput ns = Fin (claimed_throughput [3, 5, 3, 5, 3, 5, 3, 5, 3, 5] 1)"
    by blast
  then have "transactionThroughput ns = Fin 4"
    by (simp add: claimed_throughput_def slice_last_def)
  with ns have eleven: "map_sum id transactionThroughput
      (getMetrics (mgr (run sample_env eleven_blocks))) = Inr (Fin 4)"
    by simp
  from throughput_over_recent_counts [of sample_env "[]"] obtain zs where
    "getMetrics (mgr (run sample_env [])) = Inr zs"
    "transactionCounts (mgr (run sample_env [])) = [] \<longrightarrow> transactionThroughput zs = Fin 0"
    by blast
  then have empty: "map_sum id transactionThroughput (getMetrics (mgr (run sample_env []))) =
      Inr (Fin 0)"
    by (simp add: mgr_run_Nil initial_def)
  from throughput_over_recent_counts [of sample_env "[BlockFinalized block_a]"] obtain os where
    os: "getMetrics (mgr (run sample_env [BlockFinalized block_a])) = Inr os"
    and zero: "averageBlockTime os = Fin 0 \<longrightarrow> transactionThroughput os = Fin 0"
    by blast
  from os have "averageBlockTime os = Fin 0"
    by (auto simp: getMetrics_run sample_average_a)
  with os zero have one: "map_sum id transactionThroughput
      (getMetrics (mgr (run sample_env [BlockFinalized block_a]))) = Inr (Fin 0)"
    by simp
  from throughput_over_recent_counts [of sample_env ?nan] obtain qs where
    qs: "getMetrics (mgr (run sample_env ?nan)) = Inr qs"
    and nan: "NaN \<in> set (slice_last 10 (transactionCounts (mgr (run sample_env ?nan)))) \<and>
      num_gt (averageBlockTime qs) (Fin 0) \<longrightarrow> transactionThroughput qs = NaN"
    by blast
  from qs have "averageBlockTime qs = Fin (25 / 2)"
    by (auto simp: getMetrics_run sample_average_nan_count)
  moreover have "NaN \<in> set (slice_last 10 (transactionCounts (mgr (run sample_env ?nan))))"
    by (simp add: sample_windows_nan_count slice_last_def)
  ultimately have "transactionThroughput qs = NaN"
    using nan by simp
  with qs have bad: "map_sum id transactionThroughput (getMetrics (mgr (run sample_env ?nan))) =
      Inr NaN"
    by simp
  from three eleven empty one bad sample_windows_eleven(2) show ?thesis by blast
qed

text \<open>Against C2 as stated: after the blocks \<open>block_b\<close> and \<open>block_c\<close> the average
  interval is 15 seconds and the counts are 5 and 7; the throughput is \<open>12 / (2 * 15)\<close>,
  not \<open>12 / (10 * 15)\<close>.\<close>

theorem throughput_ten_times_counterexample:
  "transactionCounts (mgr (run sample_env [BlockFinalized block_b, BlockFinalized block_c])) =
     map Fin [5, 7] \<and>
   map_sum id averageBlockTime
     (getMetrics (mgr (run sample_env [BlockFinalized block_b, BlockFinalized block_c]))) =
     Inr (Fin 15) \<and>
   map_sum id transactionThroughput
     (getMetrics (mgr (run sample_env [BlockFinalized block_b, BlockFinalized block_c]))) =
     Inr (Fin (2 / 5)) \<and>
   claimed_throughput [5, 7] 15 = 2 / 25"
proof -
  have "slice_last 10 (transactionCounts
          (mgr (run sample_env [BlockFinalized block_b, BlockFinalized block_c]))) = map Fin [5, 7]"
    by (simp add: sample_windows_bc slice_last_def)
  then have "calculateTransactionThroughput
          (mgr (run sample_env [BlockFinalized block_b, BlockFinalized block_c])) =
        Fin (sum_list [5, 7] / (of_nat (length [5, 7::rat]) * 15))"
    by (rule throughput_recent_Fin [OF _ _ sample_average_bc]) (simp_all add: sample_windows_bc)
  then show ?thesis
    by (simp add: getMetrics_run sample_average_bc sample_windows_bc claimed_throughput_def
        slice_last_def)
qed

section \<open>The transaction map\<close>

lemma distinct_step:
  assumes "distinct (map fst (transactions m))"
  shows "distinct (map fst (transactions (fst (handler_of env e m))))"
proof (cases e)
  case (BlockFinalized b)
  with assms show ?thesis
    by (cases "processBlock env b") (simp_all add: handleNewBlock_state)
qed (use assms in \<open>simp_all add: handleTransactionUpdate_state handleTransactionRejected_state
      distinct_update distinct_delete\<close>)

lemma distinct_transactions_run: "distinct (map fst (transactions (mgr (run env es))))"
proof (induction es rule: rev_induct)
  case Nil
  show ?case by (simp add: mgr_run_Nil initial_def)
next
  case (snoc e es)
  show ?case unfolding mgr_run_snoc by (rule distinct_step) (rule snoc.IH)
qed

lemma one_entry_per_key:
  assumes "distinct (map fst al)" and "map_of al k = Some v"
  shows "filter (\<lambda>p. fst p = k) al = [(k, v)]"
  using assms
proof (induction al)
  case Nil
  then show ?case by simp
next
  case (Cons p al)
  show ?case
  proof (cases "fst p = k")
    case True
    with Cons.prems have "p = (k, v)" by (cases p) simp
    moreover from Cons.prems True have "k \<notin> fst ` set al" by simp
    then have "filter (\<lambda>p. fst p = k) al = []" by (auto simp: filter_empty_conv)
    ultimately show ?thesis by simp
  next
    case False
    with Cons show ?thesis by (cases p) auto
  qed
qed

lemma update_event_state:
  assumes "e \<in> {TransactionPending t, TransactionProposed t, TransactionConfirmed t}"
  shows "mgr (run env (es @ [e])) =
           (mgr (run env es))\<lparr>transactions :=
              AList.update (txHash t) (processTransaction env t) (transactions (mgr (run env es)))\<rparr>"
  using assms by (auto simp: mgr_run_snoc handleTransactionUpdate_state)

text \<open>
  Claim C4. After any sequence of inbound events, a \<open>transaction-pending\<close>,
  \<open>transaction-proposed\<close> or \<open>transaction-confirmed\<close> event for a transaction leaves
  exactly one record under its hash in the transaction map, the record that
  \<open>getTransactionByHash\<close> returns, and the status of that record is the status that the
  event carries; after a \<open>transaction-rejected\<close> event for the hash,
  \<open>getTransactionByHash\<close> returns nothing.
\<close>

theorem latest_status_wins:
  "(e \<in> {TransactionPending t, TransactionProposed t, TransactionConfirmed t} \<longrightarrow>
      (\<exists>r. getTransactionByHash (mgr (run env (es @ [e]))) (txHash t) = Some r \<and>
           ptx_hash r = txHash t \<and> ptx_status r = status t \<and>
           filter (\<lambda>p. fst p = txHash t) (transactions (mgr (run env (es @ [e])))) =
             [(txHash t, r)])) \<and>
   getTransactionByHash (mgr (run env (es @ [TransactionRejected t]))) (txHash t) = None"
proof (intro conjI impI)
  assume e: "e \<in> {TransactionPending t, TransactionProposed t, TransactionConfirmed t}"
  let ?r = "processTransaction env t"
  have look: "getTransactionByHash (mgr (run env (es @ [e]))) (txHash t) = Some ?r"
    by (simp add: update_event_state [OF e] getTransactionByHash_def update_conv')
  then have "map_of (transactions (mgr (run env (es @ [e])))) (txHash t) = Some ?r"
    by (simp add: getTransactionByHash_def)
  with distinct_transactions_run [of env "es @ [e]"]
  have "filter (\<lambda>p. fst p = txHash t) (transactions (mgr (run env (es @ [e])))) =
          [(txHash t, ?r)]"
    by (rule one_entry_per_key)
  with look show "\<exists>r. getTransactionByHash (mgr (run env (es @ [e]))) (txHash t) = Some r \<and>
           ptx_hash r = txHash t \<and> ptx_status r = status t \<and>
           filter (\<lambda>p. fst p = txHash t) (transactions (mgr (run env (es @ [e])))) =
             [(txHash t, r)]"
    by (simp add: processTransaction_def)
next
  show "getTransactionByHash (mgr (run env (es @ [TransactionRejected t]))) (txHash t) = None"
    by (simp add: mgr_run_snoc handleTransactionRejected_state getTransactionByHash_def
        delete_conv')
qed

theorem latest_status_wins_witness:
  "map_option ptx_status (getTransactionByHash
      (mgr (run sample_env [TransactionPending (tx1 PENDING)])) ''T1'') = Some PENDING \<and>
   map_option ptx_status (getTransactionByHash
      (mgr (run sample_env [TransactionPending (tx1 PENDING), TransactionProposed (tx1 PROPOSED)]))
      ''T1'') = Some PROPOSED \<and>
   map_option ptx_status (getTransactionByHash
      (mgr (run sample_env [TransactionPending (tx1 PENDING), TransactionProposed (tx1 PROPOSED),
                            TransactionConfirmed (tx1 CONFIRMED)])) ''T1'') = Some CONFIRMED \<and>
   length (transactions
      (mgr (run sample_env [TransactionPending (tx1 PENDING), TransactionProposed (tx1 PROPOSED),
                            TransactionConfirmed (tx1 CONFIRMED)]))) = 1 \<and>
   getTransactionByHash
      (mgr (run sample_env [TransactionPending (tx1 PENDING), TransactionProposed (tx1 PROPOSED),
                            TransactionConfirmed (tx1 CONFIRMED),
                            TransactionRejected (tx1 REJECTED)])) ''T1'' = None"
proof -
  have h: "txHash (tx1 s) = ''T1''" "status (tx1 s) = s" for s
    by (simp_all add: tx1_def)
  have one: "map_option ptx_status (getTransactionByHash
      (mgr (run sample_env [TransactionPending (tx1 PENDING)])) ''T1'') = Some PENDING"
    using latest_status_wins [of "TransactionPending (tx1 PENDING)" "tx1 PENDING" sample_env "[]"]
    by (auto simp: h)
  have two: "map_option ptx_status (getTransactionByHash
      (mgr (run sample_env [TransactionPending (tx1 PENDING), TransactionProposed (tx1 PROPOSED)]))
      ''T1'') = Some PROPOSED"
    using latest_status_wins [of "TransactionProposed (tx1 PROPOSED)" "tx1 PROPOSED" sample_env
        "[TransactionPending (tx1 PENDING)]"]
    by (auto simp: h)
  have three: "map_option ptx_status (getTransactionByHash
      (mgr (run sample_env [TransactionPending (tx1 PENDING), TransactionProposed (tx1 PROPOSED),
                            TransactionConfirmed (tx1 CONFIRMED)])) ''T1'') = Some CONFIRMED"
    using latest_status_wins [of "TransactionConfirmed (tx1 CONFIRMED)" "tx1 CONFIRMED" sample_env
        "[TransactionPending (tx1 PENDING), TransactionProposed (tx1 PROPOSED)]"]
    by (auto simp: h)
  have len: "length (transactions
      (mgr (run sample_env [TransactionPending (tx1 PENDING), TransactionProposed (tx1 PROPOSED),
                            TransactionConfirmed (tx1 CONFIRMED)]))) = 1"
    using mgr_run_snoc [of sample_env "[]" "TransactionPending (tx1 PENDING)"]
      mgr_run_snoc [of sample_env "[TransactionPending (tx1 PENDING)]"
        "TransactionProposed (tx1 PROPOSED)"]
      mgr_run_snoc [of sample_env
        "[TransactionPending (tx1 PENDING), TransactionProposed (tx1 PROPOSED)]"
        "TransactionConfirmed (tx1 CONFIRMED)"]
    by (simp add: mgr_run_Nil initial_def handleTransactionUpdate_state h)
  have gone: "getTransactionByHash
      (mgr (run sample_env [TransactionPending (tx1 PENDING), TransactionProposed (tx1 PROPOSED),
                            TransactionConfirmed (tx1 CONFIRMED),
                            TransactionRejected (tx1 REJECTED)])) ''T1'' = None"
    using latest_status_wins [of "TransactionRejected (tx1 REJECTED)" "tx1 REJECTED" sample_env
        "[TransactionPending (tx1 PENDING), TransactionProposed (tx1 PROPOSED),
          TransactionConfirmed (tx1 CONFIRMED)]"]
    by (simp add: h)
  from one two three len gone show ?thesis by blast
qed

section \<open>Rejected transactions\<close>

text \<open>
  Claim C10. When the hash of a \<open>transaction-rejected\<close> event is not in the transaction
  map, the engine publishes \<open>transaction-removed\<close> with that hash and nothing else happens:
  the manager, the listeners of the bus and the rest of the engine are as before.
\<close>

theorem rejected_unknown_hash:
  "getTransactionByHash (mgr (run env es)) (txHash t) = None \<longrightarrow>
     emit env (TransactionRejected t) (run env es) =
       ((run env es)\<lparr>trace := trace (run env es) @
            [Emit ''transaction-removed'' (Hash (txHash t))]\<rparr>, None)"
proof
  assume "getTransactionByHash (mgr (run env es)) (txHash t) = None"
  then have "txHash t \<notin> fst ` set (transactions (mgr (run env es)))"
    by (simp add: getTransactionByHash_def map_of_eq_None_iff)
  then have "AList.delete (txHash t) (transactions (mgr (run env es))) =
             transactions (mgr (run env es))"
    by (rule delete_id)
  then show "emit env (TransactionRejected t) (run env es) =
       ((run env es)\<lparr>trace := trace (run env es) @
            [Emit ''transaction-removed'' (Hash (txHash t))]\<rparr>, None)"
    by (simp add: emit_run handleTransactionRejected_def)
qed

theorem rejected_unknown_hash_witness:
  "emit sample_env (TransactionRejected (tx1 REJECTED)) (run sample_env []) =
     ((run sample_env [])\<lparr>trace := trace (run sample_env []) @
          [Emit ''transaction-removed'' (Hash ''T1'')]\<rparr>, None)"
  using rejected_unknown_hash [of sample_env "[]" "tx1 REJECTED"]
  by (simp add: mgr_run_Nil initial_def getTransactionByHash_def tx1_def)

section \<open>Fault isolation in the manager\<close>

lemma handleNewBlock_try_rejected:
  "\<not> reward_accepted b \<Longrightarrow> snd (snd (handleNewBlock_try env m (Some b))) \<noteq> None"
  using processBlock_rejected [of b env] by (auto simp: handleNewBlock_try_def)

lemma handleNewBlock_try_accepted:
  assumes "reward_accepted b" and "\<forall>p \<in> set (blocks m). pb_difficulty (snd p) = Fin 0"
  shows "snd (snd (handleNewBlock_try env m (Some b))) = None"
proof -
  from processBlock_accepted [OF assms(1), of env] obtain pb where
    pb: "processBlock env b = Inr pb" by blast
  let ?m3 = "fst (handler_of env (BlockFinalized b) m)"
  have m3: "?m3 =
      m\<lparr>blocks := AList.update (blockHash b) pb (blocks m),
        blockTimestamps := push_window (blockTimestamps m) (pb_timestamp pb),
        transactionCounts := push_window (transactionCounts m) (pb_transactionCount pb)\<rparr>"
    using pb by (simp add: handleNewBlock_state)
  from difficulty_step [OF assms(2), of env "BlockFinalized b"]
  have "estimateHashRate ?m3 = Inr 0" by (rule estimateHashRate_zero)
  then obtain ms where "getMetrics ?m3 = Inr ms" by (simp add: getMetrics_def)
  with pb m3 show ?thesis by (simp add: handleNewBlock_try_def Let_def)
qed

lemma handleNewBlock_try_raises_run:
  "snd (snd (handleNewBlock_try env (mgr (run env es)) (Some b))) \<noteq> None \<longleftrightarrow> \<not> reward_accepted b"
proof (cases "reward_accepted b")
  case True
  then have "snd (snd (handleNewBlock_try env (mgr (run env es)) (Some b))) = None"
    by (rule handleNewBlock_try_accepted) (rule difficulty_run)
  with True show ?thesis by simp
next
  case False
  then have "snd (snd (handleNewBlock_try env (mgr (run env es)) (Some b))) \<noteq> None"
    by (rule handleNewBlock_try_rejected)
  with False show ?thesis by simp
qed

lemma failed_block_keeps_maps:
  assumes "\<not> reward_accepted b"
  shows "mgr (run env (es @ [BlockFinalized b])) = mgr (run env es)"
proof -
  from processBlock_rejected [OF assms, of env] obtain x where "processBlock env b = Inl x" ..
  then show ?thesis by (simp add: mgr_run_snoc handleNewBlock_state)
qed

lemma accepted_block_is_stored:
  assumes "reward_accepted b"
  shows "\<exists>pb. processBlock env b = Inr pb \<and>
              getBlockByHash (mgr (run env (es @ [BlockFinalized b]))) (blockHash b) = Some pb"
proof -
  from processBlock_accepted [OF assms, of env] obtain pb where
    pb: "processBlock env b = Inr pb" by blast
  then have "getBlockByHash (mgr (run env (es @ [BlockFinalized b]))) (blockHash b) = Some pb"
    by (simp add: mgr_run_snoc handleNewBlock_state getBlockByHash_def update_conv')
  with pb show ?thesis by blast
qed

text \<open>
  What holds when the payload of an inbound event is an object of its interface. No
  exception leaves the delivery of the event to the manager. When the body of
  \<open>handleNewBlock\<close> raises on a reachable state (this is the case exactly when \<open>BigInt\<close>
  rejects the reward of the block), the block map and the transaction map are what they
  were before the event. The body of \<open>handleTransactionUpdate\<close> never raises. A block with
  an accepted reward and a transaction update that come after the failed event are
  processed, and their records are found by hash.
\<close>

lemma payload_object_isolation:
  "snd (emit env e (run env es)) = None \<and>
   snd (snd (handleNewBlock env (mgr (run env es)) (Some b))) = None \<and>
   (snd (snd (handleNewBlock_try env (mgr (run env es)) (Some b))) \<noteq> None \<longrightarrow>
      \<not> reward_accepted b \<and>
      blocks (mgr (run env (es @ [BlockFinalized b]))) = blocks (mgr (run env es)) \<and>
      transactions (mgr (run env (es @ [BlockFinalized b]))) = transactions (mgr (run env es))) \<and>
   snd (snd (handleTransactionUpdate_try env (mgr (run env es)) (Some t))) = None \<and>
   (reward_accepted b' \<longrightarrow>
      (\<exists>pb. processBlock env b' = Inr pb \<and>
            getBlockByHash (mgr (run env (es @ [BlockFinalized b, BlockFinalized b'])))
              (blockHash b') = Some pb)) \<and>
   getTransactionByHash (mgr (run env (es @ [BlockFinalized b, TransactionPending t]))) (txHash t) =
     Some (processTransaction env t)"
proof -
  have "snd (emit env e (run env es)) = None"
    by (simp add: emit_run)
  moreover have "snd (snd (handleNewBlock env (mgr (run env es)) (Some b))) = None"
    by (rule handleNewBlock_no_exn)
  moreover have "snd (snd (handleNewBlock_try env (mgr (run env es)) (Some b))) \<noteq> None \<longrightarrow>
      \<not> reward_accepted b \<and>
      blocks (mgr (run env (es @ [BlockFinalized b]))) = blocks (mgr (run env es)) \<and>
      transactions (mgr (run env (es @ [BlockFinalized b]))) = transactions (mgr (run env es))"
  proof
    assume "snd (snd (handleNewBlock_try env (mgr (run env es)) (Some b))) \<noteq> None"
    then have rej: "\<not> reward_accepted b"
      by (rule iffD1 [OF handleNewBlock_try_raises_run])
    then have "mgr (run env (es @ [BlockFinalized b])) = mgr (run env es)"
      by (rule failed_block_keeps_maps)
    with rej show "\<not> reward_accepted b \<and>
      blocks (mgr (run env (es @ [BlockFinalized b]))) = blocks (mgr (run env es)) \<and>
      transactions (mgr (run env (es @ [BlockFinalized b]))) = transactions (mgr (run env es))"
      by simp
  qed
  moreover have "snd (snd (handleTransactionUpdate_try env (mgr (run env es)) (Some t))) = None"
    by (simp add: handleTransactionUpdate_try_def Let_def)
  moreover have "reward_accepted b' \<longrightarrow>
      (\<exists>pb. processBlock env b' = Inr pb \<and>
            getBlockByHash (mgr (run env (es @ [BlockFinalized b, BlockFinalized b'])))
              (blockHash b') = Some pb)"
    using accepted_block_is_stored [of b' env "es @ [BlockFinalized b]"] by simp
  moreover have "getTransactionByHash
      (mgr (run env (es @ [BlockFinalized b, TransactionPending t]))) (txHash t) =
     Some (processTransaction env t)"
    using mgr_run_snoc [of env "es @ [BlockFinalized b]" "TransactionPending t"]
    by (simp add: handleTransactionUpdate_state getTransactionByHash_def update_conv')
  ultimately show ?thesis by blast
qed

lemma payload_object_isolation_sample:
  "snd (emit sample_env (BlockFinalized block_bad) (run sample_env [])) = None \<and>
   snd (snd (handleNewBlock_try sample_env (mgr (run sample_env [])) (Some block_bad))) = Some SyntaxError \<and>
   blocks (mgr (run sample_env [BlockFinalized block_bad])) = [] \<and>
   transactions (mgr (run sample_env [BlockFinalized block_bad])) = [] \<and>
   map_option pb_totalValue (getBlockByHash
      (mgr (run sample_env [BlockFinalized block_bad, BlockFinalized block_a])) ''0xa'') =
     Some 123456789012345678 \<and>
   map_option ptx_status (getTransactionByHash
      (mgr (run sample_env [BlockFinalized block_bad, TransactionPending (tx1 PENDING)])) ''T1'') =
     Some PENDING"
proof -
  note inst = payload_object_isolation [of sample_env "BlockFinalized block_bad" "[]" block_bad
      "tx1 PENDING" block_a]
  have bad: "processBlock sample_env block_bad = Inl SyntaxError"
    by (simp add: processBlock_def block_bad_def BigInt_sample_bad)
  then have raised:
    "snd (snd (handleNewBlock_try sample_env (mgr (run sample_env [])) (Some block_bad))) = Some SyntaxError"
    by (simp add: handleNewBlock_try_def)
  have good: "processBlock sample_env block_a = Inr pb \<Longrightarrow> pb_totalValue pb = 123456789012345678"
    for pb by (auto simp: processBlock_def block_a_def BigInt_sample_a)
  have names: "blockHash block_a = ''0xa''" "txHash (tx1 PENDING) = ''T1''"
    by (simp_all add: block_a_def tx1_def)
  from inst raised have "blocks (mgr (run sample_env [BlockFinalized block_bad])) = [] \<and>
      transactions (mgr (run sample_env [BlockFinalized block_bad])) = []"
    by (simp add: mgr_run_Nil initial_def)
  moreover from inst sample_accepted(1) good names have
    "map_option pb_totalValue (getBlockByHash
      (mgr (run sample_env [BlockFinalized block_bad, BlockFinalized block_a])) ''0xa'') =
     Some 123456789012345678"
    by auto
  moreover from inst names have "map_option ptx_status (getTransactionByHash
      (mgr (run sample_env [BlockFinalized block_bad, TransactionPending (tx1 PENDING)])) ''T1'') =
     Some PENDING"
    by (simp add: processTransaction_def tx1_def)
  moreover from inst have "snd (emit sample_env (BlockFinalized block_bad) (run sample_env [])) = None"
    by blast
  ultimately show ?thesis using raised by blast
qed

text \<open>
  Claim C5, on the code. With \<open>null\<close> or \<open>undefined\<close> as the payload, the TypeError
  raised in the \<open>try\<close> of \<open>handleNewBlock\<close> is caught, but the \<open>catch\<close> reads the hash
  of the payload for its \<open>console.error\<close> and raises the TypeError again: the exception
  leaves the handler, in every state of the manager. \<open>handleTransactionUpdate\<close> does the
  same. The manager is left as it was. No payload that is an object makes either handler
  raise.
\<close>

theorem null_payload_leaves_handler:
  "handleNewBlock_try env m None = (m, [], Some TypeError) \<and>
   handleNewBlock env m None = (m, [], Some TypeError) \<and>
   handleTransactionUpdate_try env m None = (m, [], Some TypeError) \<and>
   handleTransactionUpdate env m None = (m, [], Some TypeError) \<and>
   (\<forall>b. snd (snd (handleNewBlock env m (Some b))) = None) \<and>
   (\<forall>t. snd (snd (handleTransactionUpdate env m (Some t))) = None)"
  by (simp add: handleNewBlock_no_exn handleTransactionUpdate_no_exn)
    (simp add: handleNewBlock_def handleNewBlock_try_def handleTransactionUpdate_def
      handleTransactionUpdate_try_def)

section \<open>The reward as an exact integer\<close>

lemma digit_of_decimal:
  "is_decimal_digit c \<Longrightarrow> digit_of 10 c = Some (c - 48)"
  by (auto simp: is_decimal_digit_def digit_of_def Let_def)

lemma digits_acc_decimal:
  assumes "\<forall>c \<in> set ds. is_decimal_digit c"
  shows "\<exists>n. digits_acc 10 acc ds = Some n \<and> int n = int acc * 10 ^ length ds + decimal_value ds"
  using assms
proof (induction ds arbitrary: acc)
  case Nil
  show ?case by simp
next
  case (Cons c ds)
  from Cons.prems have c: "is_decimal_digit c" and ds: "\<forall>c \<in> set ds. is_decimal_digit c"
    by simp_all
  from c have ge: "48 \<le> c" by (simp add: is_decimal_digit_def)
  from Cons.IH [OF ds, of "acc * 10 + (c - 48)"] obtain n where
    n: "digits_acc 10 (acc * 10 + (c - 48)) ds = Some n"
       "int n = int (acc * 10 + (c - 48)) * 10 ^ length ds + decimal_value ds"
    by blast
  from ge have "int (acc * 10 + (c - 48)) = int acc * 10 + (int c - 48)"
    by simp
  with n show ?case
    by (simp add: digit_of_decimal [OF c] algebra_simps)
qed

lemma unsigned_literal_decimal:
  assumes "ds \<noteq> []" and "\<forall>c \<in> set ds. is_decimal_digit c"
  shows "unsigned_literal 10 ds = Inr (decimal_value ds)"
  using assms(1) digits_acc_decimal [OF assms(2), of 0]
  by (auto simp: unsigned_literal_def digits_def)

lemma dropWhile_none: "\<forall>c \<in> set s. \<not> P c \<Longrightarrow> dropWhile P s = s"
  by (cases s) simp_all

lemma trim_no_space: "\<forall>c \<in> set s. \<not> is_space c \<Longrightarrow> trim s = s"
  by (simp add: trim_def dropWhile_none)

lemma units_literals:
  "units ''0x'' = [48, 120]" "units ''0X'' = [48, 88]" "units ''0o'' = [48, 111]"
  "units ''0O'' = [48, 79]" "units ''0b'' = [48, 98]" "units ''0B'' = [48, 66]"
  "units ''+'' = [43]" "units ''-'' = [45]" "units ''0'' = [48]"
  by (simp_all add: units_def)

lemma decimal_digit_facts:
  assumes "is_decimal_digit c"
  shows "\<not> is_space c" "c \<noteq> 120" "c \<noteq> 88" "c \<noteq> 111" "c \<noteq> 79" "c \<noteq> 98" "c \<noteq> 66"
    "c \<noteq> 43" "c \<noteq> 45"
  using assms by (auto simp: is_decimal_digit_def is_space_def)

lemma take2_not_prefix:
  assumes "\<forall>c \<in> set ds. is_decimal_digit c"
  shows "take 2 ds \<notin> {units ''0x'', units ''0X'', units ''0o'', units ''0O'', units ''0b'',
                       units ''0B''}"
proof (cases ds)
  case Nil
  then show ?thesis by (simp add: units_literals)
next
  case (Cons c cs)
  show ?thesis
  proof (cases cs)
    case Nil
    with Cons show ?thesis by (simp add: units_literals)
  next
    case (Cons d ds')
    with \<open>ds = c # cs\<close> assms have "is_decimal_digit d" by simp
    from decimal_digit_facts [OF this] Cons \<open>ds = c # cs\<close> show ?thesis
      by (simp add: units_literals)
  qed
qed

lemma BigInt_string_decimal:
  assumes "ds \<noteq> []" and "\<forall>c \<in> set ds. is_decimal_digit c"
  shows "BigInt_string ds = Inr (decimal_value ds)"
proof -
  from assms(2) have "\<forall>c \<in> set ds. \<not> is_space c" by (simp add: decimal_digit_facts)
  then have t: "trim ds = ds" by (rule trim_no_space)
  from assms have "is_decimal_digit (hd ds)" by (cases ds) simp_all
  then have hd: "hd ds \<noteq> 43" "hd ds \<noteq> 45" by (simp_all add: decimal_digit_facts)
  from take2_not_prefix [OF assms(2)] assms(1) hd t show ?thesis
    by (simp add: BigInt_string_def Let_def units_literals(7,8)
        unsigned_literal_decimal [OF assms])
qed

lemma BigInt_string_negative:
  assumes "ds \<noteq> []" and "\<forall>c \<in> set ds. is_decimal_digit c"
  shows "BigInt_string (units ''-'' @ ds) = Inr (- decimal_value ds)"
proof -
  have "\<not> is_space 45" by (simp add: is_space_def)
  with assms(2) have "\<forall>c \<in> set (45 # ds). \<not> is_space c"
    by (simp add: decimal_digit_facts)
  then have t: "trim (45 # ds) = 45 # ds" by (rule trim_no_space)
  have "take 2 (45 # ds) \<notin> {[48, 120], [48, 88], [48, 111], [48, 79], [48, 98], [48, 66::nat]}"
    by (cases ds) simp_all
  with t show ?thesis
    by (simp add: BigInt_string_def Let_def units_literals unsigned_literal_decimal [OF assms])
qed

text \<open>
  Claim C8. When the reward of a block is a non-empty string of decimal digits,
  \<open>processBlock\<close> returns a record whose \<open>totalValue\<close> is the integer that the string
  denotes, whatever its size, and this is the record that the engine stores for the block;
  with a minus sign in front the value is the negated integer.
\<close>

theorem reward_is_exact:
  "ds \<noteq> [] \<and> (\<forall>c \<in> set ds. is_decimal_digit c) \<longrightarrow>
     (reward b = ds \<longrightarrow>
        (\<exists>pb. processBlock env b = Inr pb \<and> pb_totalValue pb = decimal_value ds \<and>
              getBlockByHash (mgr (run env (es @ [BlockFinalized b]))) (blockHash b) = Some pb)) \<and>
     (reward b = units ''-'' @ ds \<longrightarrow>
        (\<exists>pb. processBlock env b = Inr pb \<and> pb_totalValue pb = - decimal_value ds \<and>
              getBlockByHash (mgr (run env (es @ [BlockFinalized b]))) (blockHash b) = Some pb))"
proof (intro impI conjI)
  assume "ds \<noteq> [] \<and> (\<forall>c \<in> set ds. is_decimal_digit c)"
  then have ds: "ds \<noteq> []" "\<forall>c \<in> set ds. is_decimal_digit c" by simp_all
  {
    assume r: "reward b = ds"
    with ds have big:
      "BigInt_string (if reward b = [] then units ''0'' else reward b) = Inr (decimal_value ds)"
      by (simp add: BigInt_string_decimal)
    then have "reward_accepted b" by (simp add: reward_accepted_def)
    from accepted_block_is_stored [OF this, of env es] big
    show "\<exists>pb. processBlock env b = Inr pb \<and> pb_totalValue pb = decimal_value ds \<and>
              getBlockByHash (mgr (run env (es @ [BlockFinalized b]))) (blockHash b) = Some pb"
      by (auto simp: processBlock_def)
  }
  {
    assume r: "reward b = units ''-'' @ ds"
    then have "reward b \<noteq> []" by (simp add: units_literals)
    with r ds have big:
      "BigInt_string (if reward b = [] then units ''0'' else reward b) = Inr (- decimal_value ds)"
      by (simp add: BigInt_string_negative)
    then have "reward_accepted b" by (simp add: reward_accepted_def)
    from accepted_block_is_stored [OF this, of env es] big
    show "\<exists>pb. processBlock env b = Inr pb \<and> pb_totalValue pb = - decimal_value ds \<and>
              getBlockByHash (mgr (run env (es @ [BlockFinalized b]))) (blockHash b) = Some pb"
      by (auto simp: processBlock_def)
  }
qed

theorem reward_is_exact_witness:
  "map_sum id pb_totalValue (processBlock sample_env block_a) = Inr 123456789012345678 \<and>
   map_option pb_totalValue
     (getBlockByHash (mgr (run sample_env [BlockFinalized block_a])) ''0xa'') =
     Some 123456789012345678 \<and>
   map_sum id pb_totalValue (processBlock sample_env (block_a\<lparr>reward := units ''-42''\<rparr>)) =
     Inr (- 42)"
proof -
  have d: "units ''123456789012345678'' \<noteq> [] \<and>
      (\<forall>c \<in> set (units ''123456789012345678''). is_decimal_digit c)"
    by (simp add: units_def is_decimal_digit_def)
  have v: "decimal_value (units ''123456789012345678'') = 123456789012345678"
    by (simp add: units_def)
  have r: "reward block_a = units ''123456789012345678''" "blockHash block_a = ''0xa''"
    by (simp_all add: block_a_def)
  from reward_is_exact [of "units ''123456789012345678''" block_a sample_env "[]"] d r
  obtain pb where "processBlock sample_env block_a = Inr pb"
    "pb_totalValue pb = decimal_value (units ''123456789012345678'')"
    "getBlockByHash (mgr (run sample_env [BlockFinalized block_a])) ''0xa'' = Some pb"
    by auto
  with v have pos: "map_sum id pb_totalValue (processBlock sample_env block_a) = Inr 123456789012345678 \<and>
   map_option pb_totalValue
     (getBlockByHash (mgr (run sample_env [BlockFinalized block_a])) ''0xa'') =
     Some 123456789012345678"
    by simp
  have d2: "units ''42'' \<noteq> [] \<and> (\<forall>c \<in> set (units ''42''). is_decimal_digit c)"
    by (simp add: units_def is_decimal_digit_def)
  have split: "units ''-42'' = units ''-'' @ units ''42''"
    by (simp add: units_def)
  have v2: "decimal_value (units ''42'') = 42" by (simp add: units_def)
  from reward_is_exact [of "units ''42''" "block_a\<lparr>reward := units ''-42''\<rparr>" sample_env "[]"]
    d2 split
  obtain pb' where "processBlock sample_env (block_a\<lparr>reward := units ''-42''\<rparr>) = Inr pb'"
    "pb_totalValue pb' = - decimal_value (units ''42'')"
    by auto
  with v2 have "map_sum id pb_totalValue
      (processBlock sample_env (block_a\<lparr>reward := units ''-42''\<rparr>)) = Inr (- 42)"
    by simp
  with pos show ?thesis by blast
qed

section \<open>The normalizer\<close>

lemma handleMessage_no_exn: "fst (snd (handleMessage publish (Some d) w)) = None"
  by (simp add: handleMessage_def split: prod.splits option.splits)

lemma handleMessage_state:
  "fst (handleMessage publish (Some d) w) = fst (handleMessage_try publish d w)"
  by (simp add: handleMessage_def split: prod.splits option.splits)

lemma handleMessage_block:
  "msg_type d = Some ''block.finalized'' \<Longrightarrow>
   fst (handleMessage publish (Some d) w) =
     fst (publish ''block-finalized'' (Verbatim (payload d)) w)"
  by (simp add: handleMessage_state handleMessage_try_def split: prod.splits)

lemma handleMessage_unknown:
  assumes "msg_type d \<noteq> Some ''block.finalized''" "msg_type d \<noteq> Some ''transaction.pending''"
    "msg_type d \<noteq> Some ''transaction.proposed''" "msg_type d \<noteq> Some ''transaction.confirmed''"
    "msg_type d \<noteq> Some ''transaction.rejected''"
  shows "handleMessage publish (Some d) w =
           (w, None, [(Log, ''Received event''), (Warn, ''Unknown message type:'')])"
proof -
  from assms have "handleMessage_try publish d w = (w, None, [(Warn, ''Unknown message type:'')])"
    unfolding handleMessage_try_def by (simp only: if_False)
  then show ?thesis by (simp add: handleMessage_def)
qed

lemma handleMessage_try_transaction:
  "msg_type d = Some ''transaction.pending'' \<Longrightarrow>
     handleMessage_try publish d w =
       (case publish ''transaction-pending'' (WithStatus (payload d) PENDING) w of
          (w', x) \<Rightarrow> (w', x, []))"
  "msg_type d = Some ''transaction.proposed'' \<Longrightarrow>
     handleMessage_try publish d w =
       (case publish ''transaction-proposed'' (WithStatus (payload d) PROPOSED) w of
          (w', x) \<Rightarrow> (w', x, []))"
  "msg_type d = Some ''transaction.confirmed'' \<Longrightarrow>
     handleMessage_try publish d w =
       (case publish ''transaction-confirmed'' (WithStatus (payload d) CONFIRMED) w of
          (w', x) \<Rightarrow> (w', x, []))"
  "msg_type d = Some ''transaction.rejected'' \<Longrightarrow>
     handleMessage_try publish d w =
       (case publish ''transaction-rejected'' (WithStatus (payload d) REJECTED) w of
          (w', x) \<Rightarrow> (w', x, []))"
  by (simp_all add: handleMessage_try_def)

lemma status_of_kind_cases:
  assumes "status_of_kind k = Some s"
  shows "k = ''pending'' \<and> s = PENDING \<or> k = ''proposed'' \<and> s = PROPOSED \<or>
         k = ''confirmed'' \<and> s = CONFIRMED \<or> k = ''rejected'' \<and> s = REJECTED"
proof -
  from assms have
    "(if k = ''pending'' then Some PENDING
      else if k = ''proposed'' then Some PROPOSED
      else if k = ''confirmed'' then Some CONFIRMED
      else if k = ''rejected'' then Some REJECTED else None) = Some s"
    unfolding status_of_kind_def by (simp only: map_of.simps fst_conv snd_conv fun_upd_apply)
  then show ?thesis
    by (cases "k = ''pending''"; cases "k = ''proposed''"; cases "k = ''confirmed''";
        cases "k = ''rejected''") simp_all
qed

lemma handleMessage_transaction:
  assumes "status_of_kind k = Some s" and "msg_type d = Some (''transaction.'' @ k)"
  shows "fst (handleMessage publish (Some d) w) =
           fst (publish (''transaction-'' @ k) (WithStatus (payload d) s) w)"
proof -
  from status_of_kind_cases [OF assms(1)] consider
      "k = ''pending''" "s = PENDING" | "k = ''proposed''" "s = PROPOSED"
    | "k = ''confirmed''" "s = CONFIRMED" | "k = ''rejected''" "s = REJECTED"
    by blast
  then show ?thesis
  proof cases
    case 1
    with assms(2) have "msg_type d = Some ''transaction.pending''" by simp
    from handleMessage_try_transaction(1) [OF this, of publish w] 1 show ?thesis
      by (simp add: handleMessage_state split: prod.splits)
  next
    case 2
    with assms(2) have "msg_type d = Some ''transaction.proposed''" by simp
    from handleMessage_try_transaction(2) [OF this, of publish w] 2 show ?thesis
      by (simp add: handleMessage_state split: prod.splits)
  next
    case 3
    with assms(2) have "msg_type d = Some ''transaction.confirmed''" by simp
    from handleMessage_try_transaction(3) [OF this, of publish w] 3 show ?thesis
      by (simp add: handleMessage_state split: prod.splits)
  next
    case 4
    with assms(2) have "msg_type d = Some ''transaction.rejected''" by simp
    from handleMessage_try_transaction(4) [OF this, of publish w] 4 show ?thesis
      by (simp add: handleMessage_state split: prod.splits)
  qed
qed

lemma handleMessage_caught:
  assumes "msg_type d = Some ''block.finalized''"
    and "snd (publish ''block-finalized'' (Verbatim (payload d)) w) \<noteq> None"
  shows "snd (snd (handleMessage publish (Some d) w)) =
           [(Log, ''Received event''), (Error, ''Error handling WebSocket message:''),
            (Error, ''Message data:'')]"
proof -
  obtain w' x where p: "publish ''block-finalized'' (Verbatim (payload d)) w = (w', Some x)"
    using assms(2) by (cases "publish ''block-finalized'' (Verbatim (payload d)) w") auto
  with assms(1) have "handleMessage_try publish d w = (w', Some x, [])"
    by (simp add: handleMessage_try_def)
  then show ?thesis by (simp add: handleMessage_def)
qed

text \<open>
  What holds of a message that is not \<open>null\<close> or \<open>undefined\<close>, on every bus:
  \<open>handleMessage\<close> returns without an exception; a \<open>block.finalized\<close> message publishes
  its payload as it is under \<open>block-finalized\<close>; a message \<open>transaction.k\<close>, for \<open>k\<close> one
  of \<open>pending\<close>, \<open>proposed\<close>, \<open>confirmed\<close>, \<open>rejected\<close>, publishes under \<open>transaction-k\<close>
  the payload with the status that belongs to \<open>k\<close>; a message of any other type publishes
  nothing, leaves the state as it is and writes a warning; the exception of a listener is
  caught and written to the console.
\<close>

lemma message_object_republished:
  "fst (snd (handleMessage publish (Some d) w)) = None \<and>
   (msg_type d = Some ''block.finalized'' \<longrightarrow>
      fst (handleMessage publish (Some d) w) =
        fst (publish ''block-finalized'' (Verbatim (payload d)) w)) \<and>
   (status_of_kind k = Some s \<and> msg_type d = Some (''transaction.'' @ k) \<longrightarrow>
      fst (handleMessage publish (Some d) w) =
        fst (publish (''transaction-'' @ k) (WithStatus (payload d) s) w)) \<and>
   (msg_type d \<notin> {Some ''block.finalized'', Some ''transaction.pending'',
                    Some ''transaction.proposed'', Some ''transaction.confirmed'',
                    Some ''transaction.rejected''} \<longrightarrow>
      handleMessage publish (Some d) w =
        (w, None, [(Log, ''Received event''), (Warn, ''Unknown message type:'')])) \<and>
   (msg_type d = Some ''block.finalized'' \<and>
    snd (publish ''block-finalized'' (Verbatim (payload d)) w) \<noteq> None \<longrightarrow>
      snd (snd (handleMessage publish (Some d) w)) =
        [(Log, ''Received event''), (Error, ''Error handling WebSocket message:''),
         (Error, ''Message data:'')])"
proof -
  have "msg_type d \<notin> {Some ''block.finalized'', Some ''transaction.pending'',
                    Some ''transaction.proposed'', Some ''transaction.confirmed'',
                    Some ''transaction.rejected''} \<longrightarrow>
      handleMessage publish (Some d) w =
        (w, None, [(Log, ''Received event''), (Warn, ''Unknown message type:'')])"
  proof
    assume "msg_type d \<notin> {Some ''block.finalized'', Some ''transaction.pending'',
                    Some ''transaction.proposed'', Some ''transaction.confirmed'',
                    Some ''transaction.rejected''}"
    then have "msg_type d \<noteq> Some ''block.finalized''" "msg_type d \<noteq> Some ''transaction.pending''"
      "msg_type d \<noteq> Some ''transaction.proposed''" "msg_type d \<noteq> Some ''transaction.confirmed''"
      "msg_type d \<noteq> Some ''transaction.rejected''"
      by blast+
    then show "handleMessage publish (Some d) w =
        (w, None, [(Log, ''Received event''), (Warn, ''Unknown message type:'')])"
      by (rule handleMessage_unknown)
  qed
  then show ?thesis
    using handleMessage_no_exn [of publish d w] handleMessage_block [of d publish w]
      handleMessage_transaction [of k s d publish w] handleMessage_caught [of d publish w]
    by blast
qed

lemma message_samples:
  "handleMessage recording_bus (Some msg_block) [] =
     ([(''block-finalized'', Verbatim 1)], None,
      [(Log, ''Received event''), (Error, ''Error handling WebSocket message:''),
       (Error, ''Message data:'')])"
  "handleMessage recording_bus (Some msg_unknown) [(''block-finalized'', Verbatim 1)] =
     ([(''block-finalized'', Verbatim 1)], None,
      [(Log, ''Received event''), (Warn, ''Unknown message type:'')])"
  "handleMessage recording_bus (Some msg_pending) [(''block-finalized'', Verbatim 1)] =
     ([(''block-finalized'', Verbatim 1), (''transaction-pending'', WithStatus 3 PENDING)], None,
      [(Log, ''Received event'')])"
  "handleMessage recording_bus
     (Some \<lparr>channel = None, msg_type = None, payload = 4\<rparr>) [] =
     ([], None, [(Log, ''Received event''), (Warn, ''Unknown message type:'')])"
  by (simp_all add: handleMessage_def handleMessage_try_def recording_bus_def msg_block_def
      msg_unknown_def msg_pending_def)

text \<open>
  Claim C7, on the code. With \<open>null\<close> or \<open>undefined\<close> in place of the message, the first
  statement of \<open>handleMessage\<close> raises a TypeError before the \<open>try\<close> is entered; nothing
  is published or logged, and the exception leaves \<open>handleMessage\<close>, whatever the bus.
  No other message makes \<open>handleMessage\<close> raise.
\<close>

theorem null_message_leaves_handleMessage:
  "handleMessage publish None w = (w, Some TypeError, []) \<and>
   (\<forall>d. fst (snd (handleMessage publish (Some d) w)) = None)"
  by (simp add: handleMessage_no_exn) (simp add: handleMessage_def)

section \<open>Teardown\<close>

lemma cleanup_run: "cleanup (run env es) = (run env es)\<lparr>next_fn := 10\<rparr>"
  by (simp add: cleanup_def off_bound_def bind_method_def off_def bus_run bus_new next_fn_run)

lemma cleanup_twice_run: "cleanup (cleanup (run env es)) = (run env es)\<lparr>next_fn := 15\<rparr>"
  by (simp add: cleanup_def off_bound_def bind_method_def off_def bus_run bus_new next_fn_run)

lemma emit_after_cleanup:
  "mgr (fst (emit env e (cleanup (run env es)))) = fst (handler_of env e (mgr (run env es)))"
  by (simp add: cleanup_run emit_new bus_run)

text \<open>
  Claim C1, on the code. \<open>cleanup\<close> passes to \<open>off\<close> five functions that \<open>bind\<close> has just
  made, none of which is a listener of the bus, so the five listeners of the constructor
  stay subscribed, after one call and after two. A \<open>block-finalized\<close> event published after
  \<open>cleanup\<close> still reaches \<open>handleNewBlock\<close>, which stores the block.
\<close>

theorem cleanup_keeps_handlers_subscribed:
  "bus (cleanup new_ChainDataManager) = bus new_ChainDataManager \<and>
   bus (cleanup (cleanup new_ChainDataManager)) = bus new_ChainDataManager \<and>
   listeners ''block-finalized'' (bus (cleanup new_ChainDataManager)) =
     [\<lparr>fn_id = 0, fn_method = HandleNewBlock\<rparr>] \<and>
   getBlockByHash (mgr (cleanup new_ChainDataManager)) ''0xa'' = None \<and>
   map_option pb_totalValue (getBlockByHash
     (mgr (fst (emit sample_env (BlockFinalized block_a) (cleanup new_ChainDataManager)))) ''0xa'') =
     Some 123456789012345678"
proof -
  have new: "new_ChainDataManager = run sample_env []" by (simp add: run_Nil)
  have "processBlock sample_env block_a = Inr pb \<Longrightarrow> pb_totalValue pb = 123456789012345678"
    for pb by (auto simp: processBlock_def block_a_def BigInt_sample_a)
  with accepted_block_is_stored [OF sample_accepted(1), of sample_env "[]"]
  have stored: "map_option pb_totalValue
      (getBlockByHash (mgr (run sample_env [BlockFinalized block_a])) ''0xa'') =
      Some 123456789012345678"
    by (auto simp: block_a_def)
  have "mgr (fst (emit sample_env (BlockFinalized block_a) (cleanup (run sample_env [])))) =
        mgr (run sample_env ([] @ [BlockFinalized block_a]))"
    by (simp only: emit_after_cleanup mgr_run_snoc)
  with stored have after: "map_option pb_totalValue (getBlockByHash
     (mgr (fst (emit sample_env (BlockFinalized block_a) (cleanup (run sample_env []))))) ''0xa'') =
     Some 123456789012345678"
    by simp
  have before: "getBlockByHash (mgr (cleanup (run sample_env []))) ''0xa'' = None"
    by (simp add: cleanup_run mgr_run_Nil initial_def getBlockByHash_def)
  have still: "listeners ''block-finalized'' (bus (cleanup (run sample_env []))) =
     [\<lparr>fn_id = 0, fn_method = HandleNewBlock\<rparr>]"
    by (simp add: cleanup_run bus_run bus_new listeners_def)
  have once: "bus (cleanup (run sample_env [])) = bus (run sample_env [])"
    by (simp add: cleanup_run)
  have twice: "bus (cleanup (cleanup (run sample_env []))) = bus (run sample_env [])"
    by (simp only: cleanup_twice_run) simp
  from once twice still before after show ?thesis
    unfolding new by blast
qed

end
